theory Spec2Isabelle
  imports Complex_Main "HOL-Library.AList"
begin

section \<open>Values of the Python program\<close>

text \<open>
  The module \<open>resources/lib/itvx.py\<close> works on the objects that \<open>json.loads\<close> builds:
  \<open>None\<close>, booleans, integers, floats, strings, lists and dictionaries. A dictionary is
  an association list, since Python dictionaries keep the order of insertion and the
  loops of the module iterate over them; a key stands once in it. Finite floats are
  rationals. Strings are lists of bytes, and the iteration over a string goes byte by
  byte.
\<close>

datatype json =
    JNull
  | JBool bool
  | JInt int
  | JFloat rat
  | JStr string
  | JList "json list"
  | JDict "(string \<times> json) list"

text \<open>
  Exceptions are values. \<open>External\<close> stands for whatever an imported module raises
  (the fetch layer, the scraper, the time and regular expression libraries).
\<close>

datatype error =
    KeyError string
  | TypeError
  | AttributeError
  | External string

fun bind :: "error + 'a \<Rightarrow> ('a \<Rightarrow> error + 'b) \<Rightarrow> error + 'b" where
  "bind (Inl e) f = Inl e"
| "bind (Inr x) f = f x"

subsection \<open>Built-in operations\<close>

text \<open>\<open>bool(v)\<close>: the truth value an \<open>if\<close> statement tests.\<close>

fun py_truthy :: "json \<Rightarrow> bool" where
  "py_truthy JNull = False"
| "py_truthy (JBool b) = b"
| "py_truthy (JInt i) = (i \<noteq> 0)"
| "py_truthy (JFloat r) = (r \<noteq> 0)"
| "py_truthy (JStr s) = (s \<noteq> [])"
| "py_truthy (JList xs) = (xs \<noteq> [])"
| "py_truthy (JDict d) = (d \<noteq> [])"

text \<open>
  \<open>a == b\<close>. Booleans, integers and floats compare by numeric value (\<open>True == 1\<close>),
  lists elementwise, dictionaries regardless of the order of their keys.
\<close>

fun num_val :: "json \<Rightarrow> rat option" where
  "num_val (JBool b) = Some (if b then 1 else 0)"
| "num_val (JInt i) = Some (of_int i)"
| "num_val (JFloat r) = Some r"
| "num_val _ = None"

fun py_eq :: "json \<Rightarrow> json \<Rightarrow> bool"
  and py_eq_list :: "json list \<Rightarrow> json list \<Rightarrow> bool"
  and py_eq_items :: "(string \<times> json) list \<Rightarrow> (string \<times> json) list \<Rightarrow> bool" where
  "py_eq JNull b = (b = JNull)"
| "py_eq (JBool x) b = (num_val b = num_val (JBool x))"
| "py_eq (JInt x) b = (num_val b = num_val (JInt x))"
| "py_eq (JFloat x) b = (num_val b = num_val (JFloat x))"
| "py_eq (JStr s) b = (b = JStr s)"
| "py_eq (JList xs) b = (case b of JList ys \<Rightarrow> py_eq_list xs ys | _ \<Rightarrow> False)"
| "py_eq (JDict d) b =
     (case b of JDict d' \<Rightarrow> length d = length d' \<and> py_eq_items d d' | _ \<Rightarrow> False)"
| "py_eq_list [] ys = (ys = [])"
| "py_eq_list (x # xs) ys =
     (case ys of [] \<Rightarrow> False | y # ys' \<Rightarrow> py_eq x y \<and> py_eq_list xs ys')"
| "py_eq_items [] d' = True"
| "py_eq_items (kv # d) d' =
     (case map_of d' (fst kv) of
        None \<Rightarrow> False
      | Some v' \<Rightarrow> py_eq (snd kv) v' \<and> py_eq_items d d')"

text \<open>\<open>v[key]\<close> with a string key.\<close>

fun py_getitem :: "json \<Rightarrow> string \<Rightarrow> error + json" where
  "py_getitem (JDict d) k = (case map_of d k of None \<Rightarrow> Inl (KeyError k) | Some v \<Rightarrow> Inr v)"
| "py_getitem _ k = Inl TypeError"

text \<open>\<open>v.get(key, default)\<close>: only a dictionary has the method.\<close>

fun py_get :: "json \<Rightarrow> string \<Rightarrow> json \<Rightarrow> error + json" where
  "py_get (JDict d) k dflt = (case map_of d k of None \<Rightarrow> Inr dflt | Some v \<Rightarrow> Inr v)"
| "py_get _ k dflt = Inl AttributeError"

text \<open>\<open>v[key] = x\<close>: a present key keeps its place, a new key goes to the end.\<close>

fun py_setitem :: "json \<Rightarrow> string \<Rightarrow> json \<Rightarrow> error + json" where
  "py_setitem (JDict d) k x = Inr (JDict (AList.update k x d))"
| "py_setitem _ k x = Inl TypeError"

text \<open>
  \<open>v.pop(key)\<close> returns the value and the dictionary without the key. A list has a
  \<open>pop\<close> too, which refuses a string; the other values have no such method.
\<close>

fun py_pop :: "json \<Rightarrow> string \<Rightarrow> error + (json \<times> json)" where
  "py_pop (JDict d) k =
     (case map_of d k of
        None \<Rightarrow> Inl (KeyError k)
      | Some v \<Rightarrow> Inr (v, JDict (AList.delete k d)))"
| "py_pop (JList xs) k = Inl TypeError"
| "py_pop _ k = Inl AttributeError"

text \<open>\<open>for x in v\<close>: the elements of a list, the keys of a dictionary, the characters of a string.\<close>

fun py_iter :: "json \<Rightarrow> error + json list" where
  "py_iter (JList xs) = Inr xs"
| "py_iter (JDict d) = Inr (map (\<lambda>kv. JStr (fst kv)) d)"
| "py_iter (JStr s) = Inr (map (\<lambda>c. JStr [c]) s)"
| "py_iter _ = Inl TypeError"

definition startswith :: "string \<Rightarrow> string \<Rightarrow> bool" where
  "startswith s p = (take (length p) s = p)"

fun has_substring :: "string \<Rightarrow> string \<Rightarrow> bool" where
  "has_substring [] p = (p = [])"
| "has_substring (c # cs) p = (startswith (c # cs) p \<or> has_substring cs p)"

text \<open>
  \<open>s in v\<close> for a string \<open>s\<close>: a substring of a string, an element of a list (an element
  equals a string only when it is that string), a key of a dictionary.
\<close>

fun py_contains :: "string \<Rightarrow> json \<Rightarrow> error + bool" where
  "py_contains s (JStr t) = Inr (has_substring t s)"
| "py_contains s (JList xs) = Inr (JStr s \<in> set xs)"
| "py_contains s (JDict d) = Inr (map_of d s \<noteq> None)"
| "py_contains s _ = Inl TypeError"

text \<open>\<open>sep.join((a, b))\<close>: both items must be strings.\<close>

fun py_join2 :: "string \<Rightarrow> json \<Rightarrow> json \<Rightarrow> error + string" where
  "py_join2 sep (JStr a) (JStr b) = Inr (a @ sep @ b)"
| "py_join2 sep _ _ = Inl TypeError"

text \<open>
  \<open>v[:n]\<close>: strings and lists are cut; a dictionary takes the slice for a key, which
  is not hashable, and the other values are not subscriptable (both \<open>TypeError\<close>).
\<close>

fun py_slice_to :: "nat \<Rightarrow> json \<Rightarrow> error + json" where
  "py_slice_to n (JStr s) = Inr (JStr (take n s))"
| "py_slice_to n (JList xs) = Inr (JList (take n xs))"
| "py_slice_to n _ = Inl TypeError"

text \<open>\<open>v.replace(a, b)\<close> for single characters \<open>a\<close> and \<open>b\<close>: a method of strings only.\<close>

definition replace_char :: "char \<Rightarrow> char \<Rightarrow> string \<Rightarrow> string" where
  "replace_char a b s = map (\<lambda>c. if c = a then b else c) s"

fun py_replace_char :: "json \<Rightarrow> char \<Rightarrow> char \<Rightarrow> error + string" where
  "py_replace_char (JStr s) a b = Inr (replace_char a b s)"
| "py_replace_char _ a b = Inl AttributeError"

section \<open>The modules around \<open>itvx\<close>\<close>

text \<open>
  \<open>itvx\<close> imports \<open>fetch\<close>, \<open>parsex\<close>, \<open>utils\<close> and \<open>itv.get_live_schedule\<close> from its own
  package, and uses \<open>str.format\<close>, \<open>re\<close>, \<open>time\<close>, \<open>datetime\<close>, \<open>pytz\<close> and \<open>tzlocal\<close>.
  They are parameters of the model: every theorem holds whatever they compute.
  \<^item> \<open>str_format t args kwargs\<close> is \<open>t.format(*args, **kwargs)\<close>;
  \<^item> \<open>str_lower t\<close> is \<open>t.lower()\<close>, which knows the letters of Unicode;
  \<^item> \<open>local_start_time v\<close> is the chain \<open>time.strptime(v, '%Y-%m-%dT%H:%M:%S')\<close>,
    \<open>datetime(...).replace(tzinfo=utc)\<close>, \<open>.astimezone(local_tz).strftime('%H:%M')\<close>
    of \<open>get_live_channels\<close>, with the local time zone of the machine;
  \<^item> \<open>re_search_video_id doc\<close> is group 1 of
    \<open>re.compile('data-video-id="(.+?)"').search(doc)\<close>, \<open>None\<close> when nothing matches.
\<close>

record env =
  get_document :: "string \<Rightarrow> error + string"
  get_json :: "string \<Rightarrow> (string \<times> string) list \<Rightarrow> error + json"
  get_live_schedule :: "error + json"
  scrape_json :: "string \<Rightarrow> error + json"
  parse_hero_content :: "json \<Rightarrow> error + json"
  parse_title :: "json \<Rightarrow> json \<Rightarrow> error + json"
  build_url :: "json list \<Rightarrow> error + json"
  IMG_PROPS_THUMB :: "(string \<times> json) list"
  IMG_PROPS_FANART :: "(string \<times> json) list"
  IMG_PROPS_POSTER :: "(string \<times> json) list"
  duration_2_seconds :: "json \<Rightarrow> error + json"
  str_format :: "string \<Rightarrow> json list \<Rightarrow> (string \<times> json) list \<Rightarrow> error + string"
  str_lower :: "string \<Rightarrow> string"
  local_start_time :: "json \<Rightarrow> error + string"
  re_search_video_id :: "string \<Rightarrow> string option"

text \<open>\<open>v.format(*args, **kwargs)\<close>: a method of strings only.\<close>

fun py_format :: "env \<Rightarrow> json \<Rightarrow> json list \<Rightarrow> (string \<times> json) list \<Rightarrow> error + json" where
  "py_format E (JStr t) args kwargs = bind (str_format E t args kwargs) (\<lambda>s. Inr (JStr s))"
| "py_format E _ args kwargs = Inl AttributeError"

text \<open>\<open>v.lower()\<close>: a method of strings only.\<close>

fun py_lower :: "env \<Rightarrow> json \<Rightarrow> error + string" where
  "py_lower E (JStr s) = Inr (str_lower E s)"
| "py_lower E _ = Inl AttributeError"

section \<open>Module state and effects\<close>

text \<open>
  The module-level variables of \<open>itvx\<close>, and what a call leaves behind outside the
  module: the requests handed to the fetch layer, in order, and the records handed to
  the logger. \<open>now\<close> is the wall clock in seconds; no function of the module reads it.
  \<open>changed_responses\<close> holds the response objects that an operation has changed in
  place, under the request that delivered them, each with the value it holds now: a
  fetch layer that hands the same object out again delivers that value.
\<close>

datatype request =
    Get_document string
  | Get_json string "(string \<times> string) list"
  | Get_live_schedule

datatype level = Debug | Info | Warning

record world =
  FEATURE_SET :: string
  PLATFORM_TAG :: string
  cached_programs :: "(string \<times> json) list"
  CACHE_TIME :: int
  requests :: "request list"
  log_records :: "(level \<times> string \<times> json list) list"
  now :: int
  changed_responses :: "(request \<times> json) list"

definition initial_world :: world where
  "initial_world =
     \<lparr>FEATURE_SET = ''hd,progressive,single-track,mpeg-dash,widevine,widevine-download,inband-ttml,hls,aes,inband-webvtt,outband-webvtt,inband-audio-description'',
      PLATFORM_TAG = ''mobile'',
      cached_programs = [],
      CACHE_TIME = 600,
      requests = [],
      log_records = [],
      now = 0,
      changed_responses = []\<rparr>"

definition fetched :: "request \<Rightarrow> world \<Rightarrow> world" where
  "fetched r w = w\<lparr>requests := requests w @ [r]\<rparr>"

definition logged :: "level \<Rightarrow> string \<Rightarrow> json list \<Rightarrow> world \<Rightarrow> world" where
  "logged l msg args w = w\<lparr>log_records := log_records w @ [(l, msg, args)]\<rparr>"

definition changed_in_place :: "request \<Rightarrow> json \<Rightarrow> world \<Rightarrow> world" where
  "changed_in_place r v w = w\<lparr>changed_responses := AList.update r v (changed_responses w)\<rparr>"

text \<open>The module-level variables other than \<open>cached_programs\<close>.\<close>

definition other_module_variables :: "world \<Rightarrow> string \<times> string \<times> int" where
  "other_module_variables w = (FEATURE_SET w, PLATFORM_TAG w, CACHE_TIME w)"

text \<open>
  A generator is modelled by what its consumer sees when it runs it to the end: the
  items yielded, in order, and the exception that stopped it, if any. An exception
  raised before the first item leaves the list empty.
\<close>

type_synonym generated = "json list \<times> error option"

fun yield_all :: "('a \<Rightarrow> error + json option) \<Rightarrow> 'a list \<Rightarrow> generated" where
  "yield_all f [] = ([], None)"
| "yield_all f (x # xs) =
     (case f x of
        Inl e \<Rightarrow> ([], Some e)
      | Inr None \<Rightarrow> yield_all f xs
      | Inr (Some y) \<Rightarrow> (y # fst (yield_all f xs), snd (yield_all f xs)))"

fun generate :: "error + 'a \<Rightarrow> ('a \<Rightarrow> generated) \<Rightarrow> generated" where
  "generate (Inl e) g = ([], Some e)"
| "generate (Inr x) g = g x"

section \<open>The functions of \<open>itvx\<close>\<close>

subsection \<open>\<open>get_page_data\<close>\<close>

definition absolute_url :: "string \<Rightarrow> string" where
  "absolute_url url = (if \<not> startswith url ''https://'' then ''https://www.itv.com'' @ url else url)"

definition get_page_data :: "env \<Rightarrow> string \<Rightarrow> world \<Rightarrow> (error + json) \<times> world" where
  "get_page_data E url w =
     (bind (get_document E (absolute_url url)) (\<lambda>html_doc. scrape_json E html_doc),
      fetched (Get_document (absolute_url url)) w)"

subsection \<open>\<open>get_live_channels\<close>\<close>

definition live_channels_url :: string where
  "live_channels_url = ''https://nownext.oasvc.itv.com/channels''"

definition live_channels_params :: "world \<Rightarrow> (string \<times> string) list" where
  "live_channels_params w =
     [(''broadcaster'', ''itv''),
      (''featureSet'', FEATURE_SET w),
      (''platformTag'', PLATFORM_TAG w)]"

text \<open>The inner loop over the main schedule: the slot of the first channel of that name.\<close>

fun find_main_slot :: "json \<Rightarrow> json list \<Rightarrow> error + json option" where
  "find_main_slot chan_id [] = Inr None"
| "find_main_slot chan_id (main_chan # rest) =
     bind (py_getitem main_chan ''channel'') (\<lambda>c.
     bind (py_getitem c ''name'') (\<lambda>name.
       if py_eq name chan_id
       then bind (py_getitem main_chan ''slot'') (\<lambda>slot. Inr (Some slot))
       else find_main_slot chan_id rest))"

text \<open>One round of the loop over \<open>(slots['now'], slots['next'])\<close>.\<close>

definition program_entry :: "env \<Rightarrow> json \<Rightarrow> error + json" where
  "program_entry E prog =
     bind (py_getitem prog ''detailedDisplayTitle'') (\<lambda>detailed.
     bind (if py_truthy detailed
           then bind (py_getitem prog ''displayTitle'') (\<lambda>t.
                bind (py_getitem prog ''detailedDisplayTitle'') (\<lambda>d.
                bind (py_join2 '': '' t d) (\<lambda>s. Inr (JStr s))))
           else py_getitem prog ''displayTitle'') (\<lambda>details.
     bind (py_getitem prog ''start'') (\<lambda>start.
     bind (py_slice_to 19 start) (\<lambda>start_t.
     bind (local_start_time E start_t) (\<lambda>start_time.
     bind (py_getitem prog ''displayTitle'') (\<lambda>title.
       Inr (JDict [(''programme_details'', details),
                   (''programmeTitle'', title),
                   (''orig_start'', JNull),
                   (''startTime'', JStr start_time)])))))))"

definition now_next_list :: "env \<Rightarrow> json \<Rightarrow> error + json" where
  "now_next_list E slots =
     bind (py_getitem slots ''now'') (\<lambda>now_prog.
     bind (py_getitem slots ''next'') (\<lambda>next_prog.
     bind (program_entry E now_prog) (\<lambda>p1.
     bind (program_entry E next_prog) (\<lambda>p2.
       Inr (JList [p1, p2])))))"

text \<open>
  The simulcast branch: the channel after the search of the main schedule, together
  with the test \<open>channel.get('slot')\<close> that decides the \<open>continue\<close>.
\<close>

definition with_main_slot :: "json \<Rightarrow> json \<Rightarrow> error + json" where
  "with_main_slot main_schedule channel =
     bind (py_getitem channel ''id'') (\<lambda>chan_id.
     bind (py_iter main_schedule) (\<lambda>main_chans.
     bind (find_main_slot chan_id main_chans) (\<lambda>found.
       case found of
         None \<Rightarrow> Inr channel
       | Some slot \<Rightarrow> py_setitem channel ''slot'' slot)))"

definition has_full_schedule :: "json \<Rightarrow> error + bool" where
  "has_full_schedule channel = bind (py_get channel ''slot'' JNull) (\<lambda>s. Inr (py_truthy s))"

text \<open>The body of the loop over the channels; it returns the channel as the loop leaves it.\<close>

definition live_channel :: "env \<Rightarrow> json \<Rightarrow> json \<Rightarrow> json \<Rightarrow> error + json" where
  "live_channel E fanart_url main_schedule channel =
     bind (py_setitem channel ''backdrop'' fanart_url) (\<lambda>channel1.
     bind (py_pop channel1 ''slots'') (\<lambda>popped.
     bind (py_getitem (snd popped) ''channelType'') (\<lambda>channel_type.
     bind (if py_eq channel_type (JStr ''simulcast'')
           then bind (with_main_slot main_schedule (snd popped)) (\<lambda>channel2.
                bind (has_full_schedule channel2) (\<lambda>full. Inr (channel2, full)))
           else Inr (snd popped, False)) (\<lambda>searched.
       if snd searched then Inr (fst searched)
       else bind (now_next_list E (fst popped)) (\<lambda>programs_list.
            py_setitem (fst searched) ''slot'' programs_list)))))"

fun live_channel_loop :: "env \<Rightarrow> json \<Rightarrow> json \<Rightarrow> json list \<Rightarrow> error + json list" where
  "live_channel_loop E fanart_url main_schedule [] = Inr []"
| "live_channel_loop E fanart_url main_schedule (channel # rest) =
     bind (live_channel E fanart_url main_schedule channel) (\<lambda>channel'.
     bind (live_channel_loop E fanart_url main_schedule rest) (\<lambda>rest'.
       Inr (channel' # rest')))"

text \<open>
  The loop changes the channel dictionaries of the response in place. What a round
  leaves in its channel: the channel it has built when it ends normally, and else the
  channel as the statements before the exception have left it (the backdrop set, the
  slots popped, the slot of the main schedule assigned).
\<close>

definition live_channel_left :: "env \<Rightarrow> json \<Rightarrow> json \<Rightarrow> json \<Rightarrow> json" where
  "live_channel_left E fanart_url main_schedule channel =
     (case live_channel E fanart_url main_schedule channel of
        Inr channel' \<Rightarrow> channel'
      | Inl e \<Rightarrow>
          (case py_setitem channel ''backdrop'' fanart_url of
             Inl e1 \<Rightarrow> channel
           | Inr channel1 \<Rightarrow>
               (case py_pop channel1 ''slots'' of
                  Inl e2 \<Rightarrow> channel1
                | Inr popped \<Rightarrow>
                    (case py_getitem (snd popped) ''channelType'' of
                       Inl e3 \<Rightarrow> snd popped
                     | Inr channel_type \<Rightarrow>
                         if py_eq channel_type (JStr ''simulcast'')
                         then (case with_main_slot main_schedule (snd popped) of
                                 Inl e4 \<Rightarrow> snd popped
                               | Inr channel2 \<Rightarrow> channel2)
                         else snd popped))))"

text \<open>The channels after the loop: those behind the round that raised are untouched.\<close>

fun channels_left :: "env \<Rightarrow> json \<Rightarrow> json \<Rightarrow> json list \<Rightarrow> json list" where
  "channels_left E fanart_url main_schedule [] = []"
| "channels_left E fanart_url main_schedule (channel # rest) =
     (case live_channel E fanart_url main_schedule channel of
        Inl e \<Rightarrow> live_channel_left E fanart_url main_schedule channel # rest
      | Inr channel' \<Rightarrow> channel' # channels_left E fanart_url main_schedule rest)"

text \<open>
  The response object after the loop. Only the elements of a list are dictionaries that
  the loop can change; with any other value under \<open>channels\<close> the response stays as it
  was.
\<close>

definition live_data_left :: "env \<Rightarrow> json \<Rightarrow> json \<Rightarrow> json \<Rightarrow> json" where
  "live_data_left E fanart_url main_schedule live_data =
     (case live_data of
        JDict d \<Rightarrow>
          (case map_of d ''channels'' of
             Some (JList channels) \<Rightarrow>
               JDict (AList.update ''channels''
                 (JList (channels_left E fanart_url main_schedule channels)) d)
           | _ \<Rightarrow> live_data)
      | _ \<Rightarrow> live_data)"

text \<open>
  The channels are changed in place and the object \<open>live_data['channels']\<close> is returned:
  a list of the changed channels, or the object itself when the loop had nothing to do.
\<close>

definition live_channels_of :: "env \<Rightarrow> json \<Rightarrow> json \<Rightarrow> json \<Rightarrow> error + json" where
  "live_channels_of E fanart_url main_schedule channels =
     bind (py_iter channels) (\<lambda>items.
     bind (live_channel_loop E fanart_url main_schedule items) (\<lambda>items'.
       Inr (case channels of JList _ \<Rightarrow> JList items' | _ \<Rightarrow> channels)))"

definition get_live_channels :: "env \<Rightarrow> world \<Rightarrow> (error + json) \<times> world" where
  "get_live_channels E w =
     (let w1 = fetched (Get_json live_channels_url (live_channels_params w)) w in
      case get_json E live_channels_url (live_channels_params w) of
        Inl e \<Rightarrow> (Inl e, w1)
      | Inr live_data \<Rightarrow>
          (case bind (py_getitem live_data ''images'') (\<lambda>images. py_getitem images ''backdrop'') of
             Inl e \<Rightarrow> (Inl e, w1)
           | Inr fanart_url \<Rightarrow>
               (bind (get_live_schedule E) (\<lambda>main_schedule.
                bind (py_getitem live_data ''channels'') (\<lambda>channels.
                  live_channels_of E fanart_url main_schedule channels)),
                (case get_live_schedule E of
                   Inl e \<Rightarrow> fetched Get_live_schedule w1
                 | Inr main_schedule \<Rightarrow>
                     changed_in_place (Get_json live_channels_url (live_channels_params w))
                       (live_data_left E fanart_url main_schedule live_data)
                       (fetched Get_live_schedule w1)))))"

subsection \<open>\<open>main_page_items\<close>\<close>

definition hero_item :: "env \<Rightarrow> json \<Rightarrow> error + json option" where
  "hero_item E hero_data = bind (parse_hero_content E hero_data) (\<lambda>item. Inr (Some item))"

definition main_page_items :: "env \<Rightarrow> world \<Rightarrow> generated \<times> world" where
  "main_page_items E w =
     (let r = get_page_data E ''https://www.itv.com'' w in
      (generate
         (bind (fst r) (\<lambda>main_data.
          bind (py_getitem main_data ''heroContent'') (\<lambda>hero_content.
            py_iter hero_content)))
         (yield_all (hero_item E)),
       snd r))"

subsection \<open>\<open>episodes\<close>\<close>

text \<open>A list comprehension: the first exception ends it.\<close>

fun map_all :: "('a \<Rightarrow> error + 'b) \<Rightarrow> 'a list \<Rightarrow> error + 'b list" where
  "map_all f [] = Inr []"
| "map_all f (x # xs) = bind (f x) (\<lambda>y. bind (map_all f xs) (\<lambda>ys. Inr (y # ys)))"

text \<open>The body of the loop over \<open>series_data\<close>.\<close>

definition series_obj :: "env \<Rightarrow> string \<Rightarrow> json \<Rightarrow> json \<Rightarrow> json \<Rightarrow> json \<Rightarrow> json \<Rightarrow> error + json" where
  "series_obj E url brand_title brand_thumb brand_fanart brand_description series =
     bind (py_getitem series ''title'') (\<lambda>title.
     bind (py_getitem series ''seriesNumber'') (\<lambda>series_idx.
     bind (py_getitem series ''title'') (\<lambda>series_title.
     bind (py_format E (JStr ''[B]{} - {}[/B]'') [brand_title, series_title] []) (\<lambda>info_title.
     bind (py_getitem series ''seriesAvailableEpisodeCount'') (\<lambda>episode_count.
     bind (py_format E (JStr ''{}\<newline>\<newline>{} - {} episodes'')
             [brand_description, title, episode_count] []) (\<lambda>plot.
     bind (py_getitem series ''episodes'') (\<lambda>series_episodes.
     bind (py_iter series_episodes) (\<lambda>episode_list.
     bind (map_all (\<lambda>episode. parse_title E episode brand_fanart) episode_list) (\<lambda>parsed.
       Inr (JDict [(''label'', title),
                   (''art'', JDict [(''thumb'', brand_thumb), (''fanart'', brand_fanart)]),
                   (''info'', JDict [(''title'', info_title), (''plot'', plot)]),
                   (''params'', JDict [(''url'', JStr url), (''series_idx'', series_idx)]),
                   (''episodes'', JList parsed)]))))))))))"

definition series_list_of :: "env \<Rightarrow> string \<Rightarrow> json \<Rightarrow> error + json" where
  "series_list_of E url brand_data =
     bind (py_getitem brand_data ''title'') (\<lambda>brand_title.
     bind (py_getitem brand_data ''title'') (\<lambda>thumb_template.
     bind (py_format E thumb_template [JDict (IMG_PROPS_THUMB E)] []) (\<lambda>brand_thumb.
     bind (py_getitem brand_data ''title'') (\<lambda>fanart_template.
     bind (py_format E fanart_template [JDict (IMG_PROPS_FANART E)] []) (\<lambda>brand_fanart.
     bind (py_getitem brand_data ''synopses'') (\<lambda>synopses.
     bind (py_get synopses ''ninety'' (JStr [])) (\<lambda>brand_description.
     bind (py_getitem brand_data ''series'') (\<lambda>series_data.
       if \<not> py_truthy series_data then Inr (JList [])
       else bind (py_iter series_data) (\<lambda>series_items.
            bind (map_all (series_obj E url brand_title brand_thumb brand_fanart
                             brand_description) series_items) (\<lambda>series_list.
              Inr (JList series_list)))))))))))"

definition episodes :: "env \<Rightarrow> string \<Rightarrow> world \<Rightarrow> (error + json) \<times> world" where
  "episodes E url w =
     (let r = get_page_data E url w in
      (bind (fst r) (\<lambda>page.
       bind (py_getitem page ''title'') (\<lambda>title.
       bind (py_getitem title ''brand'') (\<lambda>brand_data.
         series_list_of E url brand_data))),
       snd r))"

subsection \<open>\<open>categories\<close>\<close>

definition category_entry :: "json \<Rightarrow> error + json option" where
  "category_entry cat =
     bind (py_getitem cat ''name'') (\<lambda>name.
     bind (py_getitem cat ''url'') (\<lambda>path.
       Inr (Some (JDict [(''label'', name), (''params'', JDict [(''path'', path)])]))))"

definition categories :: "env \<Rightarrow> world \<Rightarrow> generated \<times> world" where
  "categories E w =
     (let r = get_page_data E ''https://www.itv.com/watch/categories'' w in
      (generate
         (bind (fst r) (\<lambda>data.
          bind (py_getitem data ''subnav'') (\<lambda>subnav.
          bind (py_getitem subnav ''items'') (\<lambda>cat_list.
            py_iter cat_list))))
         (yield_all category_entry),
       snd r))"

subsection \<open>\<open>category_content\<close>\<close>

definition premium_marker :: string where
  "premium_marker = ''[COLOR yellow]X premium[/COLOR]''"

text \<open>
  The test on the tier: the plot of the programme, or \<open>None\<close> where the loop takes its
  \<open>continue\<close>.
\<close>

definition programme_plot :: "bool \<Rightarrow> json \<Rightarrow> error + json option" where
  "programme_plot hide_payed prog =
     bind (py_getitem prog ''tier'') (\<lambda>tier.
     bind (py_contains ''FREE'' tier) (\<lambda>free.
       if free then bind (py_getitem prog ''description'') (\<lambda>description. Inr (Some description))
       else if hide_payed then Inr None
       else bind (py_getitem prog ''description'') (\<lambda>description.
            bind (py_join2 ''\<newline>\<newline>'' description (JStr premium_marker)) (\<lambda>plot.
              Inr (Some (JStr plot))))))"

text \<open>The parameters of a programme, with the duration that a playable one adds to its info.\<close>

definition programme_params :: "env \<Rightarrow> bool \<Rightarrow> json \<Rightarrow> json \<Rightarrow> json \<Rightarrow> error + ((string \<times> json) list \<times> json)" where
  "programme_params E is_playable title content_info prog =
     (if is_playable
      then bind (duration_2_seconds E content_info) (\<lambda>duration.
           bind (py_getitem prog ''encodedProgrammeId'') (\<lambda>programme_id.
           bind (py_getitem programme_id ''letterA'') (\<lambda>programme_a.
           bind (build_url E [title, programme_a]) (\<lambda>url.
             Inr ([(''duration'', duration)], url)))))
      else bind (py_getitem prog ''encodedProgrammeId'') (\<lambda>programme_id.
           bind (py_getitem programme_id ''letterA'') (\<lambda>programme_a.
           bind (py_getitem prog ''encodedEpisodeId'') (\<lambda>episode_id.
           bind (py_getitem episode_id ''letterA'') (\<lambda>episode_a.
           bind (build_url E [title, programme_a, episode_a]) (\<lambda>url.
             Inr ([], url)))))))"

definition programme_poster :: "env \<Rightarrow> json \<Rightarrow> json \<Rightarrow> error + (string \<times> json) list" where
  "programme_poster E category prog =
     (if py_eq category (JStr ''films'')
      then bind (py_getitem prog ''imageTemplate'') (\<lambda>template.
           bind (py_format E template [] (IMG_PROPS_POSTER E)) (\<lambda>poster.
             Inr [(''poster'', poster)]))
      else Inr [])"

text \<open>The body of the loop over the programmes: the item yielded, or \<open>None\<close> after \<open>continue\<close>.\<close>

definition programme_entry :: "env \<Rightarrow> json \<Rightarrow> bool \<Rightarrow> json \<Rightarrow> error + json option" where
  "programme_entry E category hide_payed prog =
     bind (py_getitem prog ''contentInfo'') (\<lambda>content_info.
     bind (py_lower E content_info) (\<lambda>content_lower.
     bind (py_getitem prog ''title'') (\<lambda>title.
     bind (programme_plot hide_payed prog) (\<lambda>plot_or_skip.
       case plot_or_skip of
         None \<Rightarrow> Inr None
       | Some plot \<Rightarrow>
           bind (py_lower E title) (\<lambda>sort_title.
           bind (py_getitem prog ''imageTemplate'') (\<lambda>thumb_template.
           bind (py_format E thumb_template [] (IMG_PROPS_THUMB E)) (\<lambda>thumb.
           bind (py_getitem prog ''imageTemplate'') (\<lambda>fanart_template.
           bind (py_format E fanart_template [] (IMG_PROPS_FANART E)) (\<lambda>fanart.
           bind (if \<not> startswith content_lower ''series'' then Inr title
                 else py_format E (JStr ''[B]{}[/B] {}'') [title, content_info] []) (\<lambda>info_title.
           bind (programme_poster E category prog) (\<lambda>poster.
           bind (programme_params E (\<not> startswith content_lower ''series'') title content_info
                   prog) (\<lambda>extra.
             Inr (Some (JDict
               [(''playable'', JBool (\<not> startswith content_lower ''series'')),
                (''show'', JDict
                   [(''label'', title),
                    (''art'', JDict ([(''thumb'', thumb), (''fanart'', fanart)] @ poster)),
                    (''info'', JDict ([(''title'', info_title),
                                       (''plot'', plot),
                                       (''sorttitle'',
                                        JStr (if startswith sort_title ''the ''
                                              then drop 4 sort_title else sort_title))]
                                      @ fst extra)),
                    (''params'', JDict [(''url'', snd extra)])])]))))))))))))))"

definition category_content :: "env \<Rightarrow> string \<Rightarrow> bool \<Rightarrow> world \<Rightarrow> generated \<times> world" where
  "category_content E url hide_payed w =
     (let r = get_page_data E url w in
      (generate
         (bind (fst r) (\<lambda>cat_data.
          bind (py_getitem cat_data ''category'') (\<lambda>cat.
          bind (py_getitem cat ''pathSegment'') (\<lambda>category.
          bind (py_get cat_data ''programmes'' JNull) (\<lambda>progr_list.
          bind (py_iter progr_list) (\<lambda>progs.
            Inr (category, progs)))))))
         (\<lambda>cp. yield_all (programme_entry E (fst cp) hide_payed) (snd cp)),
       snd r))"

subsection \<open>\<open>get_playlist_url_from_episode_page\<close>\<close>

text \<open>Subscripting the result of \<open>search\<close> fails when the pattern is not in the page.\<close>

definition get_playlist_url_from_episode_page ::
    "env \<Rightarrow> string \<Rightarrow> world \<Rightarrow> (error + string \<times> string) \<times> world" where
  "get_playlist_url_from_episode_page E url w =
     (let w1 = fetched (Get_document url)
                 (logged Info ''Get playlist from episode page - url=%s'' [JStr url] w) in
      case get_document E url of
        Inl e \<Rightarrow> (Inl e, w1)
      | Inr html_doc \<Rightarrow>
          (case re_search_video_id E html_doc of
             None \<Rightarrow> Inl TypeError
           | Some play_list_url \<Rightarrow> Inr (play_list_url, []),
           logged Debug ''successfully retrieved page %s'' [JStr url] w1))"

subsection \<open>\<open>search\<close>\<close>

definition search_url :: string where
  "search_url = ''https://textsearch.prd.oasvc.itv.com/search''"

definition query_params :: "string \<Rightarrow> (string \<times> string) list" where
  "query_params search_term =
     [(''broadcaster'', ''itv''),
      (''featureSet'', ''clearkey,outband-webvtt,hls,aes,playready,widevine,fairplay,bbts,progressive,hd,rtmpe''),
      (''onlyFree'', ''true''),
      (''platform'', ''dotcom''),
      (''query'', search_term)]"

definition image_format_args :: "(string \<times> json) list" where
  "image_format_args =
     [(''width'', JInt 960), (''height'', JInt 540), (''quality'', JInt 80),
      (''blur'', JInt 0), (''bg'', JStr ''false'')]"

definition productions_url_template :: string where
  "productions_url_template = ''https://discovery.hubsvc.itv.com/platform/itvonline/dotcom/productions?programmeId={}&features=aes,clearkey,fairplay,hls,mpeg-dash,outband-webvtt,playready,widevine&broadcaster=itv''"

definition parse_programme :: "env \<Rightarrow> json \<Rightarrow> error + json" where
  "parse_programme E prg_data =
     bind (py_getitem prg_data ''programmeTitle'') (\<lambda>prog_name.
     bind (py_getitem prg_data ''latestAvailableEpisode'') (\<lambda>latest.
     bind (py_getitem latest ''imageHref'') (\<lambda>img_url.
     bind (py_format E img_url [] image_format_args) (\<lambda>thumb.
     bind (py_get prg_data ''synopsis'' JNull) (\<lambda>synopsis.
     bind (py_get prg_data ''totalAvailableEpisodes'' (JStr [])) (\<lambda>total.
     bind (py_format E (JStr ''[B]{}[/B] - {} episodes'') [prog_name, total] []) (\<lambda>info_title.
     bind (py_getitem prg_data ''legacyId'') (\<lambda>legacy_id.
     bind (py_getitem legacy_id ''apiEncoded'') (\<lambda>api_encoded.
     bind (py_format E (JStr productions_url_template) [api_encoded] []) (\<lambda>url.
       Inr (JDict [(''entity_type'', JStr ''programme''),
                   (''label'', prog_name),
                   (''art'', JDict [(''thumb'', thumb)]),
                   (''info'', JDict [(''plot'', synopsis), (''title'', info_title)]),
                   (''params'', JDict [(''url'', url), (''name'', prog_name)])])))))))))))"

text \<open>
  \<open>parse_special\<close> reads the title and the image from the variable \<open>program_data\<close> of
  the enclosing loop and the rest from its argument \<open>prg_data\<close>.
\<close>

definition parse_special :: "env \<Rightarrow> json \<Rightarrow> json \<Rightarrow> error + json" where
  "parse_special E program_data prg_data =
     bind (py_getitem program_data ''specialTitle'') (\<lambda>prog_name.
     bind (py_getitem program_data ''imageHref'') (\<lambda>img_url.
     bind (py_getitem prg_data ''productionId'') (\<lambda>production_id.
     bind (py_replace_char production_id CHR ''/'' CHR ''_'') (\<lambda>replaced.
     bind (py_format E img_url [] image_format_args) (\<lambda>thumb.
     bind (py_get prg_data ''synopsis'' JNull) (\<lambda>synopsis.
       Inr (JDict [(''entity_type'', JStr ''special''),
                   (''label'', prog_name),
                   (''art'', JDict [(''thumb'', thumb)]),
                   (''info'', JDict [(''plot'', synopsis), (''title'', prog_name)]),
                   (''params'',
                    JDict [(''url'',
                            JStr (''https://magni.itv.com/playlist/itvonline/ITV/''
                                  @ replace_char CHR ''#'' CHR ''.'' replaced)),
                           (''name'', prog_name)])])))))))"

definition unknown_entity_message :: string where
  "unknown_entity_message = ''Unknown search result item entityType %s on search term %s''"

text \<open>The loop over the results; a result of an unknown entity type leaves a warning.\<close>

fun search_loop :: "env \<Rightarrow> string \<Rightarrow> json list \<Rightarrow> world \<Rightarrow> generated \<times> world" where
  "search_loop E search_term [] w = (([], None), w)"
| "search_loop E search_term (result # rest) w =
     (case py_getitem result ''data'' of
        Inl e \<Rightarrow> (([], Some e), w)
      | Inr program_data \<Rightarrow>
          (case py_getitem result ''entityType'' of
             Inl e \<Rightarrow> (([], Some e), w)
           | Inr entity_type \<Rightarrow>
               if py_eq entity_type (JStr ''programme'') then
                 (case parse_programme E program_data of
                    Inl e \<Rightarrow> (([], Some e), w)
                  | Inr item \<Rightarrow>
                      ((item # fst (fst (search_loop E search_term rest w)),
                        snd (fst (search_loop E search_term rest w))),
                       snd (search_loop E search_term rest w)))
               else if py_eq entity_type (JStr ''special'') then
                 (case parse_special E program_data program_data of
                    Inl e \<Rightarrow> (([], Some e), w)
                  | Inr item \<Rightarrow>
                      ((item # fst (fst (search_loop E search_term rest w)),
                        snd (fst (search_loop E search_term rest w))),
                       snd (search_loop E search_term rest w)))
               else search_loop E search_term rest
                      (logged Warning unknown_entity_message [entity_type, JStr search_term] w)))"

definition search :: "env \<Rightarrow> string \<Rightarrow> world \<Rightarrow> generated \<times> world" where
  "search E search_term w =
     (let w1 = fetched (Get_json search_url (query_params search_term)) w in
      case get_json E search_url (query_params search_term) of
        Inl e \<Rightarrow> (([], Some e), w1)
      | Inr data \<Rightarrow>
          if data = JNull then (([], None), w1)
          else (case bind (py_get data ''results'' JNull) py_iter of
                  Inl e \<Rightarrow> (([], Some e), w1)
                | Inr results \<Rightarrow> search_loop E search_term results w1))"

section \<open>The listitem schema\<close>

text \<open>
  The host framework builds a menu item from a dictionary with the keys \<open>label\<close>,
  \<open>art\<close>, \<open>info\<close> and \<open>params\<close>.
\<close>

definition has_key :: "string \<Rightarrow> json \<Rightarrow> bool" where
  "has_key k v = (case v of JDict d \<Rightarrow> map_of d k \<noteq> None | _ \<Rightarrow> False)"

definition listitem_schema :: "json \<Rightarrow> bool" where
  "listitem_schema v =
     (has_key ''label'' v \<and> has_key ''art'' v \<and> has_key ''info'' v \<and> has_key ''params'' v)"

section \<open>Channels that get the now/next slots\<close>

text \<open>
  The channels for which \<open>get_live_channels\<close> builds the slot list from
  \<open>slots['now']\<close> and \<open>slots['next']\<close>: every channel whose type is not
  \<open>'simulcast'\<close>, and every simulcast channel for which \<open>channel.get('slot')\<close> is false
  after the search of the main schedule. That is a channel with no entry of its name in
  the main schedule and no true \<open>slot\<close> of its own, or one whose entry has a false slot.
\<close>

definition uses_now_next :: "json \<Rightarrow> json \<Rightarrow> bool" where
  "uses_now_next main_schedule channel =
     (case py_getitem channel ''channelType'' of
        Inl e \<Rightarrow> False
      | Inr channel_type \<Rightarrow>
          channel_type \<noteq> JStr ''simulcast'' \<or>
          (case bind (py_getitem channel ''id'') (\<lambda>chan_id.
                bind (py_iter main_schedule) (find_main_slot chan_id)) of
             Inl e \<Rightarrow> False
           | Inr None \<Rightarrow>
               (case py_get channel ''slot'' JNull of
                  Inl e \<Rightarrow> False
                | Inr own_slot \<Rightarrow> \<not> py_truthy own_slot)
           | Inr (Some slot) \<Rightarrow> \<not> py_truthy slot))"

section \<open>Notions of the properties\<close>

text \<open>\<open>'FREE' in prog['tier']\<close> is true.\<close>

definition is_free :: "json \<Rightarrow> bool" where
  "is_free prog = (bind (py_getitem prog ''tier'') (py_contains ''FREE'') = Inr True)"

text \<open>The plot of an item of \<open>category_content\<close>: \<open>item['show']['info']['plot']\<close>.\<close>

definition item_plot :: "json \<Rightarrow> error + json" where
  "item_plot item =
     bind (py_getitem item ''show'') (\<lambda>show.
     bind (py_getitem show ''info'') (\<lambda>info.
       py_getitem info ''plot''))"


text \<open>
  The generator of \<open>category_content\<close> stops with the exception \<open>e\<close> at programme
  \<open>n\<close> of the list: the round of that programme raises it, or, before the first round,
  the lookup of the category does.
\<close>

definition stops_at :: "env \<Rightarrow> json \<Rightarrow> bool \<Rightarrow> json list \<Rightarrow> nat \<Rightarrow> error \<Rightarrow> bool" where
  "stops_at E cat_data hide_payed progs n e =
     (case bind (py_getitem cat_data ''category'') (\<lambda>cat. py_getitem cat ''pathSegment'') of
        Inl e' \<Rightarrow> n = 0 \<and> e' = e
      | Inr category \<Rightarrow>
          n < length progs \<and> programme_entry E category hide_payed (progs ! n) = Inl e)"



text \<open>The number of rounds of a \<open>for\<close> loop over a value; none when there is no value.\<close>

definition loop_length :: "error + json \<Rightarrow> nat" where
  "loop_length r = (case bind r py_iter of Inl e \<Rightarrow> 0 | Inr xs \<Rightarrow> length xs)"

section \<open>Sample pages and surroundings\<close>

text \<open>The lower case of the letters of ASCII.\<close>

definition lower_char :: "char \<Rightarrow> char" where
  "lower_char c =
     (if (65::nat) \<le> of_char c \<and> (of_char c :: nat) \<le> 90
      then char_of ((of_char c :: nat) + 32) else c)"

text \<open>
  Surroundings that answer every request: a document is its own address, the scraper
  decodes nothing, the helpers of \<open>parsex\<close> and \<open>utils\<close> hand back what they get,
  \<open>str.format\<close> leaves the template as it is and \<open>str.lower\<close> lowers the letters of
  ASCII. The samples below change one part each.
\<close>

definition plain_env :: env where
  "plain_env =
     \<lparr>get_document = (\<lambda>url. Inr url),
      get_json = (\<lambda>url params. Inr JNull),
      get_live_schedule = Inr (JList []),
      scrape_json = (\<lambda>html_doc. Inr JNull),
      parse_hero_content = (\<lambda>hero_data. Inr hero_data),
      parse_title = (\<lambda>episode fanart. Inr episode),
      build_url = (\<lambda>args. Inr (JList args)),
      IMG_PROPS_THUMB = [],
      IMG_PROPS_FANART = [],
      IMG_PROPS_POSTER = [],
      duration_2_seconds = (\<lambda>content_info. Inr (JInt 0)),
      str_format = (\<lambda>template args kwargs. Inr template),
      str_lower = map lower_char,
      local_start_time = (\<lambda>start_t. Inr ''20:00''),
      re_search_video_id = (\<lambda>html_doc. None)\<rparr>"

text \<open>Surroundings whose scraper finds the page \<open>page\<close> in every document.\<close>

definition page_env :: "json \<Rightarrow> env" where
  "page_env page = plain_env\<lparr>scrape_json := (\<lambda>html_doc. Inr page)\<rparr>"

text \<open>Surroundings whose fetch layer is down: every request raises \<open>e\<close>.\<close>

definition offline_env :: "error \<Rightarrow> env" where
  "offline_env e =
     plain_env\<lparr>get_document := (\<lambda>url. Inl e),
                get_json := (\<lambda>url params. Inl e),
                get_live_schedule := Inl e\<rparr>"

text \<open>The page of the categories, with one category.\<close>

definition categories_page :: json where
  "categories_page =
     JDict [(''subnav'', JDict [(''items'', JList
       [JDict [(''name'', JStr ''Drama & Soaps''),
               (''url'', JStr ''/watch/categories/drama-soaps'')]])])]"

text \<open>A category page with a free series and a premium film.\<close>

definition free_programme :: json where
  "free_programme =
     JDict [(''title'', JStr ''The Bay''),
            (''contentInfo'', JStr ''Series 1-3''),
            (''tier'', JList [JStr ''FREE'']),
            (''description'', JStr ''Crime drama''),
            (''imageTemplate'', JStr ''https://img/bay''),
            (''encodedProgrammeId'', JDict [(''letterA'', JStr ''2a7610'')]),
            (''encodedEpisodeId'', JDict [(''letterA'', JStr [])])]"

definition premium_programme :: json where
  "premium_programme =
     JDict [(''title'', JStr ''Emma''),
            (''contentInfo'', JStr ''1h 55m''),
            (''tier'', JList [JStr ''PAID'']),
            (''description'', JStr ''Period drama''),
            (''imageTemplate'', JStr ''https://img/emma''),
            (''encodedProgrammeId'', JDict [(''letterA'', JStr ''10a1234'')]),
            (''encodedEpisodeId'', JDict [(''letterA'', JStr [])])]"

definition drama_page :: json where
  "drama_page =
     JDict [(''category'', JDict [(''pathSegment'', JStr ''drama-soaps'')]),
            (''programmes'', JList [free_programme, premium_programme])]"

text \<open>A brand page with one series of one episode.\<close>

definition brand_page :: json where
  "brand_page =
     JDict [(''title'', JDict [(''brand'', JDict
       [(''title'', JStr ''Marple''),
        (''synopses'', JDict [(''ninety'', JStr ''Miss Marple investigates'')]),
        (''series'', JList
           [JDict [(''title'', JStr ''Series 1''),
                   (''seriesNumber'', JInt 1),
                   (''seriesAvailableEpisodeCount'', JInt 1),
                   (''episodes'', JList [JDict [(''episodeTitle'', JStr ''The Body'')]])]])])])]"

text \<open>Search results: a programme, a result of another entity type, a special.\<close>

definition programme_result :: json where
  "programme_result =
     JDict [(''entityType'', JStr ''programme''),
            (''data'', JDict
               [(''programmeTitle'', JStr ''The Chase''),
                (''latestAvailableEpisode'', JDict [(''imageHref'', JStr ''https://img/chase'')]),
                (''synopsis'', JStr ''Quiz''),
                (''totalAvailableEpisodes'', JInt 12),
                (''legacyId'', JDict [(''apiEncoded'', JStr ''1_7842'')])])]"

definition special_result :: json where
  "special_result =
     JDict [(''entityType'', JStr ''special''),
            (''data'', JDict
               [(''specialTitle'', JStr ''The Chase: The Final''),
                (''imageHref'', JStr ''https://img/final''),
                (''synopsis'', JStr ''One-off''),
                (''productionId'', JStr ''1/7842/0001#001'')])]"

definition video_result :: json where
  "video_result =
     JDict [(''entityType'', JStr ''video''),
            (''data'', JDict [(''title'', JStr ''A clip'')])]"

text \<open>Surroundings whose fetch layer answers every JSON request with \<open>data\<close>.\<close>

definition json_env :: "json \<Rightarrow> env" where
  "json_env data = plain_env\<lparr>get_json := (\<lambda>url params. Inr data)\<rparr>"

definition search_response :: "json list \<Rightarrow> json" where
  "search_response results = JDict [(''results'', JList results)]"

text \<open>Live data: a channel of the streaming kind and two of the main channels.\<close>

definition now_prog :: json where
  "now_prog =
     JDict [(''displayTitle'', JStr ''News''),
            (''detailedDisplayTitle'', JStr ''At Ten''),
            (''start'', JStr ''2023-01-15T22:00:00Z'')]"

definition next_prog :: json where
  "next_prog =
     JDict [(''displayTitle'', JStr ''Weather''),
            (''detailedDisplayTitle'', JNull),
            (''start'', JStr ''2023-01-15T22:30:00Z'')]"

definition fast_channel :: json where
  "fast_channel =
     JDict [(''id'', JStr ''fast1''),
            (''channelType'', JStr ''fast''),
            (''slots'', JDict [(''now'', now_prog), (''next'', next_prog)])]"

definition simulcast_channel :: "string \<Rightarrow> json" where
  "simulcast_channel chan_id =
     JDict [(''id'', JStr chan_id),
            (''channelType'', JStr ''simulcast''),
            (''slots'', JDict [(''now'', now_prog), (''next'', next_prog)])]"

text \<open>A simulcast channel that arrives with a \<open>slot\<close> entry of its own.\<close>

definition channel_with_slot :: json where
  "channel_with_slot =
     JDict [(''id'', JStr ''ITV4''),
            (''channelType'', JStr ''simulcast''),
            (''slots'', JDict [(''now'', now_prog), (''next'', next_prog)]),
            (''slot'', JList [JStr ''kept''])]"

definition channels_response :: "json list \<Rightarrow> json" where
  "channels_response channels =
     JDict [(''images'', JDict [(''backdrop'', JStr ''https://img/backdrop'')]),
            (''channels'', JList channels)]"

text \<open>The main schedule knows the channel \<open>ITV\<close> only.\<close>

definition itv_schedule :: json where
  "itv_schedule =
     JList [JDict [(''channel'', JDict [(''name'', JStr ''ITV'')]),
                   (''slot'', JList [JDict [(''programmeTitle'', JStr ''News'')],
                                     JDict [(''programmeTitle'', JStr ''Weather'')],
                                     JDict [(''programmeTitle'', JStr ''Film'')]])]]"

definition live_env :: "json list \<Rightarrow> error + json \<Rightarrow> env" where
  "live_env channels schedule =
     plain_env\<lparr>get_json := (\<lambda>url params. Inr (channels_response channels)),
                get_live_schedule := schedule\<rparr>"


text \<open>A category page whose second programme has no title.\<close>

definition untitled_programme :: json where
  "untitled_programme =
     JDict [(''contentInfo'', JStr ''45m''),
            (''tier'', JList [JStr ''FREE'']),
            (''description'', JStr ''Documentary''),
            (''imageTemplate'', JStr ''https://img/doc''),
            (''encodedProgrammeId'', JDict [(''letterA'', JStr ''2a9999'')]),
            (''encodedEpisodeId'', JDict [(''letterA'', JStr [])])]"

definition broken_page :: json where
  "broken_page =
     JDict [(''category'', JDict [(''pathSegment'', JStr ''factual'')]),
            (''programmes'', JList [free_programme, untitled_programme, premium_programme])]"

section \<open>Properties\<close>

subsection \<open>Exceptions in sequence\<close>

lemma bind_eq_Inr: "bind m f = Inr y \<longleftrightarrow> (\<exists>x. m = Inr x \<and> f x = Inr y)"
  by (cases m) auto

lemma bind_eq_Inl: "bind m f = Inl e \<longleftrightarrow> (m = Inl e \<or> (\<exists>x. m = Inr x \<and> f x = Inl e))"
  by (cases m) auto

subsection \<open>Fetching a page\<close>

text \<open>
  Claim C10. \<open>get_page_data\<close> requests exactly one document: \<open>'https://www.itv.com' + url\<close>
  when \<open>url\<close> does not start with \<open>'https://'\<close>, and \<open>url\<close> itself when it does. When
  the fetch layer delivers the document, the result is what \<open>parsex.scrape_json\<close> makes
  of that document.
\<close>

theorem get_page_data_fetches_absolute_url:
  "requests (snd (get_page_data E url w)) =
     requests w @ [Get_document (if startswith url ''https://'' then url
                                 else ''https://www.itv.com'' @ url)]
   \<and> (\<forall>html_doc. get_document E (if startswith url ''https://'' then url
                                   else ''https://www.itv.com'' @ url) = Inr html_doc
        \<longrightarrow> fst (get_page_data E url w) = scrape_json E html_doc)"
  by (simp add: get_page_data_def absolute_url_def fetched_def)

theorem get_page_data_fetches_absolute_url_witness:
  "requests (snd (get_page_data (page_env (JInt 7)) ''/watch'' initial_world)) =
     [Get_document ''https://www.itv.com/watch'']
   \<and> fst (get_page_data (page_env (JInt 7)) ''/watch'' initial_world) = Inr (JInt 7)
   \<and> requests (snd (get_page_data (page_env (JInt 7)) ''https://www.itv.com/watch''
                       initial_world)) =
     [Get_document ''https://www.itv.com/watch'']"
  using get_page_data_fetches_absolute_url [of "page_env (JInt 7)" "''/watch''" initial_world]
    get_page_data_fetches_absolute_url
      [of "page_env (JInt 7)" "''https://www.itv.com/watch''" initial_world]
  by (simp add: startswith_def page_env_def plain_env_def initial_world_def)

text \<open>
  Claim C1, as stated, fails: \<open>get_page_data\<close> has no cache. Two calls with the same
  URL one second apart, far inside \<open>CACHE_TIME\<close>, send two requests, and
  \<open>cached_programs\<close> is as empty after them as before.
\<close>

theorem get_page_data_refetches_counterexample:
  "requests (snd (get_page_data plain_env ''/watch''
       ((snd (get_page_data plain_env ''/watch'' initial_world))\<lparr>now := 1\<rparr>))) =
     [Get_document ''https://www.itv.com/watch'', Get_document ''https://www.itv.com/watch'']
   \<and> 1 - now initial_world < CACHE_TIME initial_world
   \<and> cached_programs (snd (get_page_data plain_env ''/watch''
       ((snd (get_page_data plain_env ''/watch'' initial_world))\<lparr>now := 1\<rparr>))) = []"
  by (simp add: get_page_data_def absolute_url_def fetched_def startswith_def initial_world_def)

text \<open>
  Claim C1, amended. Every call of \<open>get_page_data\<close> sends one request for the page to
  the fetch layer, however recently the same URL was asked for. The call leaves
  \<open>cached_programs\<close> as it is, and its result depends neither on what that dictionary
  holds nor on the clock.
\<close>

theorem get_page_data_never_caches:
  "requests (snd (get_page_data E url w)) = requests w @ [Get_document (absolute_url url)]
   \<and> cached_programs (snd (get_page_data E url w)) = cached_programs w
   \<and> fst (get_page_data E url (w\<lparr>cached_programs := c, now := t\<rparr>)) = fst (get_page_data E url w)"
  by (simp add: get_page_data_def fetched_def)

theorem get_page_data_never_caches_witness:
  "requests (snd (get_page_data plain_env ''/watch'' (fetched (Get_document ''https://www.itv.com/watch'') initial_world))) =
     [Get_document ''https://www.itv.com/watch'', Get_document ''https://www.itv.com/watch'']
   \<and> fst (get_page_data plain_env ''/watch''
         (initial_world\<lparr>cached_programs := [(''https://www.itv.com/watch'', JInt 1)], now := 5\<rparr>)) =
       Inr JNull"
  using get_page_data_never_caches [of plain_env "''/watch''"
      "fetched (Get_document ''https://www.itv.com/watch'') initial_world"]
    get_page_data_never_caches [where E = plain_env and url = "''/watch''" and w = initial_world
      and c = "[(''https://www.itv.com/watch'', JInt 1)]" and t = 5]
  by (simp add: get_page_data_def absolute_url_def startswith_def fetched_def plain_env_def initial_world_def)

subsection \<open>What a generator yields\<close>

lemma yield_all_source:
  "y \<in> set (fst (yield_all f xs)) \<Longrightarrow> \<exists>x\<in>set xs. f x = Inr (Some y)"
  by (induction xs) (auto split: sum.splits option.splits)

lemma generate_source:
  "y \<in> set (fst (generate m g)) \<Longrightarrow> \<exists>x. m = Inr x \<and> y \<in> set (fst (g x))"
  by (cases m) auto

lemma map_all_source:
  "map_all f xs = Inr ys \<Longrightarrow> y \<in> set ys \<Longrightarrow> \<exists>x\<in>set xs. f x = Inr y"
  by (induction xs arbitrary: ys) (auto simp: bind_eq_Inr)

lemma programme_entry_shape:
  "programme_entry E category hide_payed prog = Inr (Some item) \<Longrightarrow>
   \<exists>playable show. item = JDict [(''playable'', JBool playable), (''show'', show)]
      \<and> listitem_schema show"
  by (auto simp: programme_entry_def bind_eq_Inr listitem_schema_def has_key_def
      split: option.splits)

lemma category_entry_shape:
  "category_entry cat = Inr (Some item) \<Longrightarrow>
   \<exists>name path. item = JDict [(''label'', name), (''params'', JDict [(''path'', path)])]"
  by (auto simp: category_entry_def bind_eq_Inr)

lemma series_obj_shape:
  "series_obj E url bt bth bf bd series = Inr item \<Longrightarrow> listitem_schema item"
  by (auto simp: series_obj_def bind_eq_Inr listitem_schema_def has_key_def)

lemma parse_programme_shape:
  "parse_programme E prg_data = Inr item \<Longrightarrow> listitem_schema item"
  by (auto simp: parse_programme_def bind_eq_Inr listitem_schema_def has_key_def)

lemma parse_special_shape:
  "parse_special E program_data prg_data = Inr item \<Longrightarrow> listitem_schema item"
  by (auto simp: parse_special_def bind_eq_Inr listitem_schema_def has_key_def)

lemma search_loop_source:
  "item \<in> set (fst (fst (search_loop E search_term results w))) \<Longrightarrow>
   \<exists>program_data. parse_programme E program_data = Inr item
      \<or> parse_special E program_data program_data = Inr item"
proof (induction results arbitrary: w)
  case Nil
  then show ?case by simp
next
  case (Cons result rest)
  then show ?case
    by (fastforce split: sum.splits if_splits)
qed

lemma map_all_pointwise:
  assumes "map_all f xs = Inr ys" and "\<And>x y. f x = Inr y \<Longrightarrow> P y"
  shows "\<forall>y\<in>set ys. P y"
  using assms map_all_source by fastforce

lemma series_list_of_shape:
  assumes "series_list_of E url brand_data = Inr series_list"
  shows "\<exists>items. series_list = JList items \<and> (\<forall>item\<in>set items. listitem_schema item)"
proof -
  from assms consider "series_list = JList []"
    | bt bth bf bd series_items items
      where "map_all (series_obj E url bt bth bf bd) series_items = Inr items"
        and "series_list = JList items"
    by (auto simp: series_list_of_def bind_eq_Inr split: if_splits)
  then show ?thesis
  proof cases
    case 1
    then show ?thesis by simp
  next
    case 2
    from map_all_pointwise [OF 2(1), of listitem_schema] series_obj_shape
    have "\<forall>item\<in>set items. listitem_schema item" by blast
    with 2(2) show ?thesis by simp
  qed
qed

lemma episodes_shape:
  assumes "fst (episodes E url w) = Inr series_list"
  shows "\<exists>items. series_list = JList items \<and> (\<forall>item\<in>set items. listitem_schema item)"
proof -
  from assms obtain brand_data where "series_list_of E url brand_data = Inr series_list"
    by (auto simp: episodes_def Let_def bind_eq_Inr)
  then show ?thesis by (rule series_list_of_shape)
qed

lemma search_shape:
  assumes "item \<in> set (fst (fst (search E search_term w)))"
  shows "listitem_schema item"
proof -
  from assms obtain results w1
    where "item \<in> set (fst (fst (search_loop E search_term results w1)))"
    by (auto simp: search_def Let_def split: sum.splits if_splits)
  then show ?thesis
    using search_loop_source parse_programme_shape parse_special_shape by blast
qed

lemma category_content_shape:
  assumes "item \<in> set (fst (fst (category_content E url hide_payed w)))"
  shows "\<exists>playable show. item = JDict [(''playable'', JBool playable), (''show'', show)]
      \<and> listitem_schema show"
proof -
  from assms obtain category progs
    where "item \<in> set (fst (yield_all (programme_entry E category hide_payed) progs))"
    by (auto simp: category_content_def Let_def dest!: generate_source)
  then show ?thesis
    using yield_all_source programme_entry_shape by meson
qed

lemma categories_shape:
  assumes "item \<in> set (fst (fst (categories E w)))"
  shows "\<exists>name path. item = JDict [(''label'', name), (''params'', JDict [(''path'', path)])]"
proof -
  from assms obtain cats where "item \<in> set (fst (yield_all category_entry cats))"
    by (auto simp: categories_def Let_def dest!: generate_source)
  then show ?thesis
    using yield_all_source category_entry_shape by meson
qed

subsection \<open>The shape of the items\<close>

text \<open>
  Claim C2, as stated, fails for two of the four operations. The item that
  \<open>categories\<close> yields has the keys \<open>label\<close> and \<open>params\<close> only, and the two items
  that \<open>category_content\<close> yields for the sample page have none of the four keys at
  their top level: they are wrapped in a dictionary with the keys \<open>playable\<close> and
  \<open>show\<close>.
\<close>

theorem listing_items_shape_counterexample:
  "fst (categories (page_env categories_page) initial_world) =
     ([JDict [(''label'', JStr ''Drama & Soaps''),
              (''params'', JDict [(''path'', JStr ''/watch/categories/drama-soaps'')])]],
      None)
   \<and> \<not> listitem_schema
         (JDict [(''label'', JStr ''Drama & Soaps''),
                 (''params'', JDict [(''path'', JStr ''/watch/categories/drama-soaps'')])])
   \<and> length (fst (fst (category_content (page_env drama_page) ''/watch/categories/drama-soaps''
                False initial_world))) = 2
   \<and> \<not> list_ex listitem_schema
         (fst (fst (category_content (page_env drama_page) ''/watch/categories/drama-soaps''
                False initial_world)))"
  by code_simp

text \<open>
  Claim C2, amended. Every item of the list that \<open>episodes\<close> returns and every item
  that \<open>search\<close> yields is a dictionary with the keys \<open>label\<close>, \<open>art\<close>, \<open>info\<close> and
  \<open>params\<close>. An item of \<open>category_content\<close> is a dictionary of two entries,
  \<open>playable\<close> and \<open>show\<close>, and it is the value of \<open>show\<close> that has the four keys. An
  item of \<open>categories\<close> has the keys \<open>label\<close> and \<open>params\<close> and no other.
\<close>

theorem listing_items_shape:
  "(\<forall>series_list. fst (episodes E url w) = Inr series_list \<longrightarrow>
       (\<exists>items. series_list = JList items \<and> (\<forall>item\<in>set items. listitem_schema item)))
   \<and> (\<forall>item\<in>set (fst (fst (search E search_term w))). listitem_schema item)
   \<and> (\<forall>item\<in>set (fst (fst (category_content E url hide_payed w))).
         \<exists>playable show. item = JDict [(''playable'', JBool playable), (''show'', show)]
            \<and> listitem_schema show)
   \<and> (\<forall>item\<in>set (fst (fst (categories E w))).
         \<exists>name path. item = JDict [(''label'', name), (''params'', JDict [(''path'', path)])])"
  using episodes_shape search_shape category_content_shape categories_shape by blast

theorem listing_items_shape_witness:
  "(case fst (episodes (page_env brand_page) ''/watch/marple'' initial_world) of
      Inr (JList items) \<Rightarrow> length items = 1 \<and> list_all listitem_schema items
    | _ \<Rightarrow> False)
   \<and> length (fst (fst (search (json_env (search_response [programme_result, special_result]))
        ''chase'' initial_world))) = 2
   \<and> list_all listitem_schema
        (fst (fst (search (json_env (search_response [programme_result, special_result]))
          ''chase'' initial_world)))
   \<and> length (fst (fst (category_content (page_env drama_page) ''/watch/categories/drama-soaps''
        False initial_world))) = 2
   \<and> list_all (\<lambda>item. case py_getitem item ''show'' of
                          Inr show \<Rightarrow> listitem_schema show | Inl e \<Rightarrow> False)
        (fst (fst (category_content (page_env drama_page) ''/watch/categories/drama-soaps''
          False initial_world)))
   \<and> length (fst (fst (categories (page_env categories_page) initial_world))) = 1
   \<and> list_all (\<lambda>item. \<not> has_key ''art'' item \<and> \<not> has_key ''info'' item)
        (fst (fst (categories (page_env categories_page) initial_world)))"
proof -
  have series: "(case fst (episodes (page_env brand_page) ''/watch/marple'' initial_world) of
      Inr (JList items) \<Rightarrow> length items | _ \<Rightarrow> 0) = 1"
    by code_simp
  have found: "length (fst (fst (search (json_env (search_response
      [programme_result, special_result])) ''chase'' initial_world))) = 2"
    by code_simp
  have programmes: "length (fst (fst (category_content (page_env drama_page)
      ''/watch/categories/drama-soaps'' False initial_world))) = 2"
    by code_simp
  have cats: "length (fst (fst (categories (page_env categories_page) initial_world))) = 1"
    by code_simp
  note shape = listing_items_shape
  from series shape [where E = "page_env brand_page" and url = "''/watch/marple''" and w = initial_world]
  have 1: "(case fst (episodes (page_env brand_page) ''/watch/marple'' initial_world) of
      Inr (JList items) \<Rightarrow> length items = 1 \<and> list_all listitem_schema items
    | _ \<Rightarrow> False)"
    by (auto simp: list_all_iff split: sum.splits json.splits)
  from shape [where E = "json_env (search_response [programme_result, special_result])"
      and search_term = "''chase''" and w = initial_world]
  have 2: "list_all listitem_schema
        (fst (fst (search (json_env (search_response [programme_result, special_result]))
          ''chase'' initial_world)))"
    by (simp add: list_all_iff)
  from shape [where E = "page_env drama_page" and url = "''/watch/categories/drama-soaps''"
      and w = initial_world and hide_payed = False]
  have 3: "list_all (\<lambda>item. case py_getitem item ''show'' of
                          Inr show \<Rightarrow> listitem_schema show | Inl e \<Rightarrow> False)
        (fst (fst (category_content (page_env drama_page) ''/watch/categories/drama-soaps''
          False initial_world)))"
    by (fastforce simp: list_all_iff)
  from shape [where E = "page_env categories_page" and w = initial_world]
  have 4: "list_all (\<lambda>item. \<not> has_key ''art'' item \<and> \<not> has_key ''info'' item)
        (fst (fst (categories (page_env categories_page) initial_world)))"
    by (fastforce simp: list_all_iff has_key_def)
  from 1 found 2 programmes 3 cats 4 show ?thesis by simp
qed

subsection \<open>The loop of \<open>search\<close> and the world\<close>


lemma search_loop_frame:
  "FEATURE_SET (snd (search_loop E search_term results w)) = FEATURE_SET w
   \<and> PLATFORM_TAG (snd (search_loop E search_term results w)) = PLATFORM_TAG w
   \<and> CACHE_TIME (snd (search_loop E search_term results w)) = CACHE_TIME w
   \<and> cached_programs (snd (search_loop E search_term results w)) = cached_programs w
   \<and> requests (snd (search_loop E search_term results w)) = requests w"
  by (induction results arbitrary: w) (auto simp: logged_def split: sum.splits)

subsection \<open>Failures of the fetch layer\<close>

text \<open>
  Claim C3. When the request that an operation sends fails, the operation ends with the
  very exception of the fetch layer: a function returns it, a generator stops with it
  before its first item. No second request follows the failed one.
  \<open>get_live_channels\<close> sends two requests; either failure comes out unchanged.
\<close>

theorem fetch_failure_propagates:
  "(get_document E (absolute_url url) = Inl e \<longrightarrow>
       fst (get_page_data E url w) = Inl e
     \<and> fst (episodes E url w) = Inl e
     \<and> fst (category_content E url hide_payed w) = ([], Some e)
     \<and> requests (snd (get_page_data E url w)) = requests w @ [Get_document (absolute_url url)]
     \<and> requests (snd (episodes E url w)) = requests w @ [Get_document (absolute_url url)]
     \<and> requests (snd (category_content E url hide_payed w)) =
         requests w @ [Get_document (absolute_url url)])
   \<and> (get_document E ''https://www.itv.com/watch/categories'' = Inl e \<longrightarrow>
       fst (categories E w) = ([], Some e)
     \<and> requests (snd (categories E w)) =
         requests w @ [Get_document ''https://www.itv.com/watch/categories''])
   \<and> (get_document E url = Inl e \<longrightarrow>
       fst (get_playlist_url_from_episode_page E url w) = Inl e
     \<and> requests (snd (get_playlist_url_from_episode_page E url w)) =
         requests w @ [Get_document url])
   \<and> (get_json E search_url (query_params search_term) = Inl e \<longrightarrow>
       fst (search E search_term w) = ([], Some e)
     \<and> requests (snd (search E search_term w)) =
         requests w @ [Get_json search_url (query_params search_term)])
   \<and> (get_json E live_channels_url (live_channels_params w) = Inl e \<longrightarrow>
       fst (get_live_channels E w) = Inl e
     \<and> requests (snd (get_live_channels E w)) =
         requests w @ [Get_json live_channels_url (live_channels_params w)])
   \<and> (get_live_schedule E = Inl e
        \<and> last (requests (snd (get_live_channels E w))) = Get_live_schedule \<longrightarrow>
       fst (get_live_channels E w) = Inl e
     \<and> requests (snd (get_live_channels E w)) =
         requests w @ [Get_json live_channels_url (live_channels_params w), Get_live_schedule])"
  by (auto simp: get_page_data_def episodes_def category_content_def categories_def
      get_playlist_url_from_episode_page_def search_def get_live_channels_def
      fetched_def changed_in_place_def logged_def Let_def absolute_url_def startswith_def
      split: sum.splits)

theorem fetch_failure_propagates_witness:
  "fst (get_page_data (offline_env (External ''timeout'')) ''/watch'' initial_world) =
     Inl (External ''timeout'')
   \<and> fst (episodes (offline_env (External ''timeout'')) ''/watch'' initial_world) =
     Inl (External ''timeout'')
   \<and> fst (category_content (offline_env (External ''timeout'')) ''/watch'' True initial_world) =
     ([], Some (External ''timeout''))
   \<and> fst (categories (offline_env (External ''timeout'')) initial_world) =
     ([], Some (External ''timeout''))
   \<and> fst (get_playlist_url_from_episode_page (offline_env (External ''timeout'')) ''/watch''
        initial_world) = Inl (External ''timeout'')
   \<and> fst (search (offline_env (External ''timeout'')) ''chase'' initial_world) =
     ([], Some (External ''timeout''))
   \<and> fst (get_live_channels (offline_env (External ''timeout'')) initial_world) =
     Inl (External ''timeout'')
   \<and> fst (get_live_channels (live_env [fast_channel] (Inl (External ''timeout'')))
        initial_world) = Inl (External ''timeout'')"
proof -
  have down: "get_document (offline_env (External ''timeout'')) u = Inl (External ''timeout'')"
    "get_json (offline_env (External ''timeout'')) u p = Inl (External ''timeout'')" for u p
    by (simp_all add: offline_env_def)
  have schedule_down:
    "get_live_schedule (live_env [fast_channel] (Inl (External ''timeout''))) =
       Inl (External ''timeout'')
     \<and> last (requests (snd (get_live_channels
          (live_env [fast_channel] (Inl (External ''timeout''))) initial_world))) =
       Get_live_schedule"
    by code_simp
  from fetch_failure_propagates [where E = "offline_env (External ''timeout'')"
      and e = "External ''timeout''" and url = "''/watch''" and w = initial_world
      and hide_payed = True and search_term = "''chase''"] down
    fetch_failure_propagates [where E = "live_env [fast_channel] (Inl (External ''timeout''))"
      and e = "External ''timeout''" and w = initial_world] schedule_down
  show ?thesis by simp
qed

subsection \<open>Results and the state of the module\<close>


text \<open>
  Claim C5. After a call of any operation of the module every module-level variable
  other than \<open>cached_programs\<close> holds the value it held before.
\<close>

theorem module_variables_unchanged:
  "other_module_variables (snd (get_page_data E url w)) = other_module_variables w
   \<and> other_module_variables (snd (get_live_channels E w)) = other_module_variables w
   \<and> other_module_variables (snd (main_page_items E w)) = other_module_variables w
   \<and> other_module_variables (snd (episodes E url w)) = other_module_variables w
   \<and> other_module_variables (snd (categories E w)) = other_module_variables w
   \<and> other_module_variables (snd (category_content E url hide_payed w)) =
       other_module_variables w
   \<and> other_module_variables (snd (get_playlist_url_from_episode_page E url w)) =
       other_module_variables w
   \<and> other_module_variables (snd (search E search_term w)) = other_module_variables w"
  using search_loop_frame
    [of E search_term _ "fetched (Get_json search_url (query_params search_term)) w"]
  by (simp add: other_module_variables_def get_page_data_def get_live_channels_def
      main_page_items_def episodes_def categories_def category_content_def
      get_playlist_url_from_episode_page_def search_def fetched_def changed_in_place_def logged_def Let_def
      split: sum.splits)

theorem module_variables_unchanged_witness:
  "other_module_variables
     (snd (search (json_env (search_response [video_result])) ''chase'' initial_world)) =
     (''hd,progressive,single-track,mpeg-dash,widevine,widevine-download,inband-ttml,hls,aes,inband-webvtt,outband-webvtt,inband-audio-description'',
      ''mobile'', 600)
   \<and> length (log_records
       (snd (search (json_env (search_response [video_result])) ''chase'' initial_world))) = 1"
proof -
  have "length (log_records
       (snd (search (json_env (search_response [video_result])) ''chase'' initial_world))) = 1"
    by code_simp
  with module_variables_unchanged [where E = "json_env (search_response [video_result])"
      and search_term = "''chase''" and w = initial_world]
  show ?thesis by (simp add: other_module_variables_def initial_world_def)
qed

subsection \<open>Live channels\<close>

lemma program_entry_orig_start:
  "program_entry E prog = Inr p \<Longrightarrow> py_getitem p ''orig_start'' = Inr JNull"
  by (auto simp: program_entry_def bind_eq_Inr)

lemma now_next_list_shape:
  "now_next_list E slots = Inr programs_list \<Longrightarrow>
   \<exists>p1 p2. programs_list = JList [p1, p2]
     \<and> py_getitem p1 ''orig_start'' = Inr JNull \<and> py_getitem p2 ''orig_start'' = Inr JNull"
  by (auto simp: now_next_list_def bind_eq_Inr dest: program_entry_orig_start)

lemma py_eq_JStr: "py_eq v (JStr s) \<longleftrightarrow> v = JStr s"
  by (cases v) (auto split: json.splits)

lemma py_setitem_Inr: "py_setitem c k x = Inr c' \<longleftrightarrow> (\<exists>d. c = JDict d \<and> c' = JDict (AList.update k x d))"
  by (cases c) auto

lemma py_pop_Inr:
  "py_pop c k = Inr r \<longleftrightarrow> (\<exists>d v. c = JDict d \<and> map_of d k = Some v \<and> r = (v, JDict (AList.delete k d)))"
  by (cases c) (auto split: option.splits)

lemma py_getitem_Inr:
  "py_getitem c k = Inr v \<longleftrightarrow> (\<exists>d. c = JDict d \<and> map_of d k = Some v)"
  by (cases c) (auto split: option.splits)

lemma with_main_slot_Inr:
  "with_main_slot ms (JDict d) = Inr c2 \<Longrightarrow>
   \<exists>chan_id mcs found. map_of d ''id'' = Some chan_id \<and> py_iter ms = Inr mcs
     \<and> find_main_slot chan_id mcs = Inr found
     \<and> c2 = (case found of None \<Rightarrow> JDict d | Some slot \<Rightarrow> JDict (AList.update ''slot'' slot d))"
  by (auto simp: with_main_slot_def bind_eq_Inr py_getitem_Inr split: option.splits)

lemma live_channel_Inr:
  assumes "live_channel E fanart_url ms c = Inr c'"
  obtains (other) d slots ctype pl where "c = JDict d" "map_of d ''slots'' = Some slots"
      "map_of d ''channelType'' = Some ctype" "ctype \<noteq> JStr ''simulcast''"
      "now_next_list E slots = Inr pl"
      "c' = JDict (AList.update ''slot'' pl
                (AList.delete ''slots'' (AList.update ''backdrop'' fanart_url d)))"
  | (full) d slots c2 where "c = JDict d" "map_of d ''slots'' = Some slots"
      "map_of d ''channelType'' = Some (JStr ''simulcast'')"
      "with_main_slot ms (JDict (AList.delete ''slots'' (AList.update ''backdrop'' fanart_url d)))
         = Inr c2"
      "has_full_schedule c2 = Inr True" "c' = c2"
  | (fallback) d slots c2 pl where "c = JDict d" "map_of d ''slots'' = Some slots"
      "map_of d ''channelType'' = Some (JStr ''simulcast'')"
      "with_main_slot ms (JDict (AList.delete ''slots'' (AList.update ''backdrop'' fanart_url d)))
         = Inr c2"
      "has_full_schedule c2 = Inr False" "now_next_list E slots = Inr pl"
      "py_setitem c2 ''slot'' pl = Inr c'"
proof -
  from assms obtain d where c: "c = JDict d"
    by (cases c) (auto simp: live_channel_def)
  define d0 where "d0 = AList.delete ''slots'' (AList.update ''backdrop'' fanart_url d)"
  from assms c obtain slots where slots: "map_of d ''slots'' = Some slots"
    by (auto simp: live_channel_def update_conv' split: option.splits)
  with assms c obtain ctype where ctype: "map_of d ''channelType'' = Some ctype"
    by (auto simp: live_channel_def update_conv' delete_conv' split: option.splits)
  from assms c slots ctype
  have body: "bind (if py_eq ctype (JStr ''simulcast'')
           then bind (with_main_slot ms (JDict d0)) (\<lambda>channel2.
                bind (has_full_schedule channel2) (\<lambda>full. Inr (channel2, full)))
           else Inr (JDict d0, False)) (\<lambda>searched.
       if snd searched then Inr (fst searched)
       else bind (now_next_list E slots) (\<lambda>programs_list.
            py_setitem (fst searched) ''slot'' programs_list)) = Inr c'"
    by (simp add: live_channel_def update_conv' delete_conv' d0_def cong: if_cong)
  show thesis
  proof (cases "ctype = JStr ''simulcast''")
    case False
    with body obtain pl where "now_next_list E slots = Inr pl"
      and "c' = JDict (AList.update ''slot'' pl d0)"
      by (auto simp: py_eq_JStr bind_eq_Inr)
    with c slots ctype False show thesis
      unfolding d0_def by (rule other)
  next
    case True
    with body obtain c2 b where c2: "with_main_slot ms (JDict d0) = Inr c2"
      and b: "has_full_schedule c2 = Inr b"
      and rest: "(if b then Inr c2
          else bind (now_next_list E slots) (\<lambda>programs_list.
            py_setitem c2 ''slot'' programs_list)) = Inr c'"
      by (auto simp: py_eq_JStr bind_eq_Inr cong: if_cong)
    show thesis
    proof (cases b)
      case True
      with rest have "c' = c2" by simp
      with c slots ctype \<open>ctype = JStr ''simulcast''\<close> c2 b True show thesis
        unfolding d0_def by (intro full) auto
    next
      case False
      with rest obtain pl where "now_next_list E slots = Inr pl"
        and "py_setitem c2 ''slot'' pl = Inr c'"
        by (auto simp: bind_eq_Inr)
      with c slots ctype \<open>ctype = JStr ''simulcast''\<close> c2 b False show thesis
        unfolding d0_def by (intro fallback) auto
    qed
  qed
qed

lemma with_main_slot_keeps:
  assumes "with_main_slot ms (JDict d) = Inr c2" and "k \<noteq> ''slot''"
  shows "\<exists>d2. c2 = JDict d2 \<and> map_of d2 k = map_of d k"
  using assms by (auto dest!: with_main_slot_Inr simp: update_conv' split: option.splits)

lemma has_full_schedule_True:
  "has_full_schedule c2 = Inr True \<Longrightarrow> \<exists>slot. py_getitem c2 ''slot'' = Inr slot"
  by (cases c2) (auto simp: has_full_schedule_def bind_eq_Inr split: option.splits)

lemma live_channel_backdrop:
  assumes "live_channel E fanart_url ms c = Inr c'"
  shows "py_getitem c' ''backdrop'' = Inr fanart_url"
  using assms
proof (cases rule: live_channel_Inr)
  case (other d slots ctype pl)
  then show ?thesis by (simp add: update_conv' delete_conv')
next
  case (full d slots c2)
  from with_main_slot_keeps [OF full(4), of "''backdrop''"] full(6)
  show ?thesis by (auto simp: update_conv' delete_conv')
next
  case (fallback d slots c2 pl)
  from with_main_slot_keeps [OF fallback(4), of "''backdrop''"] fallback(7)
  show ?thesis by (auto simp: update_conv' delete_conv')
qed

lemma live_channel_slot:
  assumes "live_channel E fanart_url ms c = Inr c'"
  shows "\<exists>slot. py_getitem c' ''slot'' = Inr slot"
  using assms
proof (cases rule: live_channel_Inr)
  case (other d slots ctype pl)
  then show ?thesis by (simp add: update_conv')
next
  case (full d slots c2)
  then show ?thesis using has_full_schedule_True by simp
next
  case (fallback d slots c2 pl)
  then show ?thesis by (auto simp: py_setitem_Inr update_conv')
qed

lemma has_full_schedule_after_search:
  assumes "with_main_slot ms (JDict d0) = Inr c2" and "has_full_schedule c2 = Inr True"
    and "map_of d0 ''id'' = map_of d ''id''" and "map_of d0 ''slot'' = map_of d ''slot''"
    and "map_of d ''channelType'' = Some (JStr ''simulcast'')"
  shows "\<not> uses_now_next ms (JDict d)"
  using assms
  by (auto dest!: with_main_slot_Inr
      simp: uses_now_next_def has_full_schedule_def bind_eq_Inr update_conv'
      split: option.splits sum.splits)

lemma live_channel_now_next:
  assumes "live_channel E fanart_url ms c = Inr c'" and "uses_now_next ms c"
  shows "\<exists>p1 p2. py_getitem c' ''slot'' = Inr (JList [p1, p2])
     \<and> py_getitem p1 ''orig_start'' = Inr JNull \<and> py_getitem p2 ''orig_start'' = Inr JNull"
  using assms(1)
proof (cases rule: live_channel_Inr)
  case (other d slots ctype pl)
  with now_next_list_shape [OF other(5)] show ?thesis by (auto simp: update_conv')
next
  case (full d slots c2)
  from has_full_schedule_after_search [OF full(4,5), of d] full(1,3) assms(2)
  show ?thesis by (simp add: update_conv' delete_conv')
next
  case (fallback d slots c2 pl)
  with now_next_list_shape [OF fallback(6)] show ?thesis
    by (auto simp: py_setitem_Inr update_conv')
qed

lemma live_channel_loop_pointwise:
  "live_channel_loop E fanart_url ms cs = Inr cs' \<Longrightarrow>
   list_all2 (\<lambda>c c'. live_channel E fanart_url ms c = Inr c') cs cs'"
  by (induction cs arbitrary: cs') (auto simp: bind_eq_Inr)

text \<open>
  Claim C7. Every channel of the list that \<open>get_live_channels\<close> returns has the keys
  \<open>backdrop\<close> and \<open>slot\<close>, and the slot of a simulcast channel with no entry of its
  name in the main schedule is built from the now/next data: two entries, each with
  \<open>orig_start\<close> equal to \<open>None\<close>. The code misses this for a simulcast channel that
  arrives with a \<open>slot\<close> entry of its own. The test \<open>channel.get('slot')\<close> then is
  true although the search has added nothing, the loop goes on to the next channel
  (against the comment of that line, which goes on if adding the full schedule
  succeeded), and the slot that comes out is the one that came in, here a list of one
  string. The same channel without that entry gets the two entries.
\<close>

theorem simulcast_channel_keeps_own_slot:
  "get_live_schedule (live_env [channel_with_slot] (Inr itv_schedule)) = Inr itv_schedule
   \<and> find_main_slot (JStr ''ITV4'') [JDict [(''channel'', JDict [(''name'', JStr ''ITV'')]),
        (''slot'', JList [JDict [(''programmeTitle'', JStr ''News'')],
                          JDict [(''programmeTitle'', JStr ''Weather'')],
                          JDict [(''programmeTitle'', JStr ''Film'')]])]] = Inr None
   \<and> fst (get_live_channels (live_env [channel_with_slot] (Inr itv_schedule)) initial_world) =
     Inr (JList [JDict [(''id'', JStr ''ITV4''),
                        (''channelType'', JStr ''simulcast''),
                        (''slot'', JList [JStr ''kept'']),
                        (''backdrop'', JStr ''https://img/backdrop'')]])
   \<and> fst (get_live_channels (live_env [simulcast_channel ''ITV4''] (Inr itv_schedule))
        initial_world) =
     Inr (JList [JDict
       [(''id'', JStr ''ITV4''),
        (''channelType'', JStr ''simulcast''),
        (''backdrop'', JStr ''https://img/backdrop''),
        (''slot'', JList
           [JDict [(''programme_details'', JStr ''News: At Ten''),
                   (''programmeTitle'', JStr ''News''), (''orig_start'', JNull),
                   (''startTime'', JStr ''20:00'')],
            JDict [(''programme_details'', JStr ''Weather''),
                   (''programmeTitle'', JStr ''Weather''), (''orig_start'', JNull),
                   (''startTime'', JStr ''20:00'')]])]])"
  by code_simp

text \<open>
  What the loop does for every channel: the channels that come out have the key
  \<open>backdrop\<close>, set to the backdrop image of the schedule data, and the key \<open>slot\<close>;
  and where the test \<open>channel.get('slot')\<close> is false after the search of the main
  schedule (\<open>uses_now_next\<close>), the slot is a list of exactly two entries, each with
  \<open>orig_start\<close> equal to \<open>None\<close>.
\<close>

theorem live_channels_shape:
  assumes "get_json E live_channels_url (live_channels_params w) = Inr live_data"
    and "py_getitem live_data ''images'' = Inr images"
    and "py_getitem images ''backdrop'' = Inr fanart_url"
    and "get_live_schedule E = Inr main_schedule"
    and "py_getitem live_data ''channels'' = Inr (JList channels)"
    and "fst (get_live_channels E w) = Inr (JList channels')"
  shows "list_all2 (\<lambda>channel channel'.
      py_getitem channel' ''backdrop'' = Inr fanart_url
      \<and> (\<exists>slot. py_getitem channel' ''slot'' = Inr slot)
      \<and> (uses_now_next main_schedule channel \<longrightarrow>
           (\<exists>p1 p2. py_getitem channel' ''slot'' = Inr (JList [p1, p2])
              \<and> py_getitem p1 ''orig_start'' = Inr JNull
              \<and> py_getitem p2 ''orig_start'' = Inr JNull)))
    channels channels'"
proof -
  from assms have "live_channel_loop E fanart_url main_schedule channels = Inr channels'"
    by (auto simp: get_live_channels_def live_channels_of_def Let_def bind_eq_Inr)
  then have "list_all2 (\<lambda>c c'. live_channel E fanart_url main_schedule c = Inr c')
      channels channels'"
    by (rule live_channel_loop_pointwise)
  then show ?thesis
    by (rule list_all2_mono)
      (use live_channel_backdrop live_channel_slot live_channel_now_next in blast)
qed

theorem live_channels_shape_witness:
  "list_all2 (\<lambda>channel channel'.
      py_getitem channel' ''backdrop'' = Inr (JStr ''https://img/backdrop'')
      \<and> (\<exists>slot. py_getitem channel' ''slot'' = Inr slot)
      \<and> (uses_now_next itv_schedule channel \<longrightarrow>
           (\<exists>p1 p2. py_getitem channel' ''slot'' = Inr (JList [p1, p2])
              \<and> py_getitem p1 ''orig_start'' = Inr JNull
              \<and> py_getitem p2 ''orig_start'' = Inr JNull)))
     [fast_channel, simulcast_channel ''ITV'', simulcast_channel ''ITV2'']
     (case fst (get_live_channels
          (live_env [fast_channel, simulcast_channel ''ITV'', simulcast_channel ''ITV2'']
             (Inr itv_schedule)) initial_world) of
        Inr (JList channels') \<Rightarrow> channels' | _ \<Rightarrow> [])
   \<and> uses_now_next itv_schedule fast_channel
   \<and> \<not> uses_now_next itv_schedule (simulcast_channel ''ITV'')
   \<and> uses_now_next itv_schedule (simulcast_channel ''ITV2'')"
proof -
  define E where "E = live_env [fast_channel, simulcast_channel ''ITV'', simulcast_channel ''ITV2'']
             (Inr itv_schedule)"
  have run: "(case fst (get_live_channels
          (live_env [fast_channel, simulcast_channel ''ITV'', simulcast_channel ''ITV2'']
             (Inr itv_schedule)) initial_world) of
        Inr (JList channels') \<Rightarrow> length channels' | _ \<Rightarrow> 0) = 3"
    by code_simp
  then obtain channels' where out: "fst (get_live_channels E initial_world) = Inr (JList channels')"
    unfolding E_def by (auto split: sum.splits json.splits)
  have uses: "uses_now_next itv_schedule fast_channel
     \<and> \<not> uses_now_next itv_schedule (simulcast_channel ''ITV'')
     \<and> uses_now_next itv_schedule (simulcast_channel ''ITV2'')"
    by code_simp
  have a: "get_json E live_channels_url (live_channels_params initial_world) =
      Inr (channels_response [fast_channel, simulcast_channel ''ITV'', simulcast_channel ''ITV2''])"
    by (simp add: E_def live_env_def plain_env_def)
  have b: "py_getitem
      (channels_response [fast_channel, simulcast_channel ''ITV'', simulcast_channel ''ITV2''])
      ''images'' = Inr (JDict [(''backdrop'', JStr ''https://img/backdrop'')])"
    by (simp add: channels_response_def)
  have c: "py_getitem (JDict [(''backdrop'', JStr ''https://img/backdrop'')]) ''backdrop'' =
      Inr (JStr ''https://img/backdrop'')"
    by simp
  have d: "get_live_schedule E = Inr itv_schedule"
    by (simp add: E_def live_env_def plain_env_def)
  have e: "py_getitem
      (channels_response [fast_channel, simulcast_channel ''ITV'', simulcast_channel ''ITV2''])
      ''channels'' = Inr (JList [fast_channel, simulcast_channel ''ITV'', simulcast_channel ''ITV2''])"
    by (simp add: channels_response_def)
  note live_channels_shape [OF a b c d e out]
  with out uses show ?thesis unfolding E_def by simp
qed

subsection \<open>The response changed in place\<close>




lemma channels_left_Cons:
  assumes "live_channel E fanart_url ms c = Inr c'"
  shows "channels_left E fanart_url ms (c # rest) = c' # channels_left E fanart_url ms rest"
  using assms by simp





subsection \<open>Search results\<close>










subsection \<open>Free and premium programmes\<close>

lemma yield_all_prefix:
  "\<exists>n\<le>length xs.
     (\<forall>x\<in>set (take n xs). \<exists>out. f x = Inr out)
     \<and> list_all2 (\<lambda>x y. f x = Inr (Some y))
          (filter (\<lambda>x. f x \<noteq> Inr None) (take n xs)) (fst (yield_all f xs))
     \<and> (snd (yield_all f xs) = None \<longrightarrow> n = length xs)
     \<and> (\<forall>e. snd (yield_all f xs) = Some e \<longrightarrow> n < length xs \<and> f (xs ! n) = Inl e)"
proof (induction xs)
  case Nil
  show ?case by simp
next
  case (Cons x xs)
  then obtain n where le: "n \<le> length xs"
    and ok: "\<forall>x\<in>set (take n xs). \<exists>out. f x = Inr out"
    and items: "list_all2 (\<lambda>x y. f x = Inr (Some y))
          (filter (\<lambda>x. f x \<noteq> Inr None) (take n xs)) (fst (yield_all f xs))"
    and fin: "snd (yield_all f xs) = None \<longrightarrow> n = length xs"
    and stop: "\<forall>e. snd (yield_all f xs) = Some e \<longrightarrow> n < length xs \<and> f (xs ! n) = Inl e"
    by (elim exE conjE)
  show ?case
  proof (cases "f x")
    case (Inl e)
    have "0 \<le> length (x # xs)
     \<and> (\<forall>x'\<in>set (take 0 (x # xs)). \<exists>out. f x' = Inr out)
     \<and> list_all2 (\<lambda>x y. f x = Inr (Some y))
          (filter (\<lambda>x. f x \<noteq> Inr None) (take 0 (x # xs))) (fst (yield_all f (x # xs)))
     \<and> (snd (yield_all f (x # xs)) = None \<longrightarrow> 0 = length (x # xs))
     \<and> (\<forall>e. snd (yield_all f (x # xs)) = Some e \<longrightarrow>
            0 < length (x # xs) \<and> f ((x # xs) ! 0) = Inl e)"
      using Inl by simp
    then show ?thesis by (rule exI [of _ 0])
  next
    case (Inr out)
    show ?thesis
    proof (cases out)
      case None
      with Inr le ok items fin stop
      have "Suc n \<le> length (x # xs)
       \<and> (\<forall>x'\<in>set (take (Suc n) (x # xs)). \<exists>out. f x' = Inr out)
       \<and> list_all2 (\<lambda>x y. f x = Inr (Some y))
            (filter (\<lambda>x. f x \<noteq> Inr None) (take (Suc n) (x # xs)))
            (fst (yield_all f (x # xs)))
       \<and> (snd (yield_all f (x # xs)) = None \<longrightarrow> Suc n = length (x # xs))
       \<and> (\<forall>e. snd (yield_all f (x # xs)) = Some e \<longrightarrow>
              Suc n < length (x # xs) \<and> f ((x # xs) ! Suc n) = Inl e)"
        by simp
      then show ?thesis by (rule exI [of _ "Suc n"])
    next
      case (Some y)
      with Inr le ok items fin stop
      have "Suc n \<le> length (x # xs)
       \<and> (\<forall>x'\<in>set (take (Suc n) (x # xs)). \<exists>out. f x' = Inr out)
       \<and> list_all2 (\<lambda>x y. f x = Inr (Some y))
            (filter (\<lambda>x. f x \<noteq> Inr None) (take (Suc n) (x # xs)))
            (fst (yield_all f (x # xs)))
       \<and> (snd (yield_all f (x # xs)) = None \<longrightarrow> Suc n = length (x # xs))
       \<and> (\<forall>e. snd (yield_all f (x # xs)) = Some e \<longrightarrow>
              Suc n < length (x # xs) \<and> f ((x # xs) ! Suc n) = Inl e)"
        by simp
      then show ?thesis by (rule exI [of _ "Suc n"])
    qed
  qed
qed

lemma programme_entry_plot:
  assumes "programme_entry E category hide_payed prog = Inr out"
  obtains (skipped) "programme_plot hide_payed prog = Inr None" "out = None"
  | (yielded) plot item where "programme_plot hide_payed prog = Inr (Some plot)"
      "out = Some item" "item_plot item = Inr plot"
proof -
  from assms obtain plot_or_skip where plot: "programme_plot hide_payed prog = Inr plot_or_skip"
    by (auto simp: programme_entry_def bind_eq_Inr)
  show thesis
  proof (cases plot_or_skip)
    case None
    with assms plot have "out = None"
      by (auto simp: programme_entry_def bind_eq_Inr)
    with plot None show thesis by (intro skipped) simp_all
  next
    case (Some p)
    with assms plot obtain item where "out = Some item" "item_plot item = Inr p"
      by (auto simp: programme_entry_def bind_eq_Inr item_plot_def)
    with plot Some show thesis by (intro yielded) simp_all
  qed
qed

lemma py_join2_Inr:
  "py_join2 sep a b = Inr s \<longleftrightarrow> (\<exists>x y. a = JStr x \<and> b = JStr y \<and> s = x @ sep @ y)"
  by (cases a; cases b) auto

lemma programme_plot_cases:
  assumes "programme_plot hide_payed prog = Inr plot_or_skip"
  shows "(is_free prog \<longrightarrow> plot_or_skip \<noteq> None)
     \<and> (\<not> is_free prog \<and> hide_payed \<longrightarrow> plot_or_skip = None)
     \<and> (\<not> is_free prog \<and> \<not> hide_payed \<longrightarrow>
          (\<exists>description. py_getitem prog ''description'' = Inr (JStr description)
             \<and> plot_or_skip = Some (JStr (description @ ''\<newline>\<newline>'' @ premium_marker))))"
proof -
  from assms obtain tier free where tier: "py_getitem prog ''tier'' = Inr tier"
    and free: "py_contains ''FREE'' tier = Inr free"
    by (auto simp: programme_plot_def bind_eq_Inr)
  then have is_free: "is_free prog = free"
    by (simp add: is_free_def)
  show ?thesis
  proof (cases free)
    case True
    with assms tier free is_free show ?thesis
      by (auto simp: programme_plot_def bind_eq_Inr)
  next
    case False
    with assms tier free is_free show ?thesis
      by (cases hide_payed) (auto simp: programme_plot_def bind_eq_Inr py_join2_Inr)
  qed
qed

lemma programme_entry_hidden:
  assumes "programme_entry E category True prog = Inr out"
  shows "out \<noteq> None \<longleftrightarrow> is_free prog"
  using assms
proof (cases rule: programme_entry_plot)
  case skipped
  with programme_plot_cases [OF skipped(1)] show ?thesis by auto
next
  case (yielded plot item)
  with programme_plot_cases [OF yielded(1)] show ?thesis by auto
qed

lemma programme_entry_shown:
  assumes "programme_entry E category False prog = Inr out"
  shows "out \<noteq> None"
  using assms
proof (cases rule: programme_entry_plot)
  case skipped
  with programme_plot_cases [OF skipped(1)] show ?thesis by auto
next
  case (yielded plot item)
  then show ?thesis by simp
qed

lemma programme_entry_premium_plot:
  assumes "programme_entry E category False prog = Inr (Some item)" and "\<not> is_free prog"
  shows "\<exists>description. py_getitem prog ''description'' = Inr (JStr description)
     \<and> item_plot item = Inr (JStr (description @ ''\<newline>\<newline>'' @ premium_marker))"
  using assms(1)
proof (cases rule: programme_entry_plot)
  case skipped
  then show ?thesis by simp
next
  case (yielded plot item')
  with programme_plot_cases [OF yielded(1)] assms(2) show ?thesis by auto
qed

lemma category_content_loop:
  assumes "fst (get_page_data E url w) = Inr cat_data"
    and "py_get cat_data ''programmes'' JNull = Inr progr_list"
    and "py_iter progr_list = Inr progs"
  obtains (failed) e where "fst (category_content E url hide_payed w) = ([], Some e)"
      "bind (py_getitem cat_data ''category'') (\<lambda>cat. py_getitem cat ''pathSegment'') = Inl e"
  | (ran) category where "fst (category_content E url hide_payed w) =
      yield_all (programme_entry E category hide_payed) progs"
      "bind (py_getitem cat_data ''category'') (\<lambda>cat. py_getitem cat ''pathSegment'') =
         Inr category"
proof (cases "bind (py_getitem cat_data ''category'') (\<lambda>cat. py_getitem cat ''pathSegment'')")
  case (Inl e)
  with assms have "fst (category_content E url hide_payed w) = ([], Some e)"
    by (cases "py_getitem cat_data ''category''") (simp_all add: category_content_def Let_def)
  with Inl show thesis by (intro failed [of e]) simp_all
next
  case (Inr category)
  with assms have "fst (category_content E url hide_payed w) =
      yield_all (programme_entry E category hide_payed) progs"
    by (cases "py_getitem cat_data ''category''") (simp_all add: category_content_def Let_def)
  with Inr show thesis by (intro ran [of category]) simp_all
qed

text \<open>
  Claim C8, as stated, fails on a page with a programme that the loop cannot read:
  the exception stops the generator there. Of the three programmes of the sample page
  the second has no title, and \<open>category_content\<close> with \<open>hide_payed=False\<close> yields one
  item, not three, and ends with \<open>KeyError('title')\<close>.
\<close>

theorem category_content_tiers_counterexample:
  "py_get broken_page ''programmes'' JNull =
     Inr (JList [free_programme, untitled_programme, premium_programme])
   \<and> length (fst (fst (category_content (page_env broken_page) ''/watch/categories/factual''
        False initial_world))) = 1
   \<and> snd (fst (category_content (page_env broken_page) ''/watch/categories/factual''
        False initial_world)) = Some (KeyError ''title'')"
  by code_simp

text \<open>
  Claim C8, amended. The items that \<open>category_content\<close> yields follow the programme
  list of the page in its order: through the whole list when the generator ends
  normally, and else through the programmes before the one at which the exception
  that stops the generator is raised (\<open>stops_at\<close>), each of which the loop has got
  through without an exception. With \<open>hide_payed=True\<close> the items are those of the
  programmes whose \<open>tier\<close> contains \<open>'FREE'\<close> and of no other. With
  \<open>hide_payed=False\<close> there is one item per programme, whatever its tier, and the plot
  of a programme that is not free is its description followed by the premium marker.
\<close>

theorem category_content_tiers:
  assumes "fst (get_page_data E url w) = Inr cat_data"
    and "py_get cat_data ''programmes'' JNull = Inr progr_list"
    and "py_iter progr_list = Inr progs"
  shows "(\<exists>n\<le>length progs.
           list_all2 (\<lambda>prog item.
               \<exists>category. programme_entry E category True prog = Inr (Some item))
             (filter is_free (take n progs)) (fst (fst (category_content E url True w)))
           \<and> (\<forall>prog\<in>set (take n progs).
                  \<exists>category out. programme_entry E category True prog = Inr out)
           \<and> (snd (fst (category_content E url True w)) = None \<longrightarrow> n = length progs)
           \<and> (\<forall>e. snd (fst (category_content E url True w)) = Some e \<longrightarrow>
                  stops_at E cat_data True progs n e))
       \<and> (\<exists>n\<le>length progs.
           list_all2 (\<lambda>prog item.
               (\<exists>category. programme_entry E category False prog = Inr (Some item))
               \<and> (\<not> is_free prog \<longrightarrow>
                    (\<exists>description. py_getitem prog ''description'' = Inr (JStr description)
                       \<and> item_plot item =
                           Inr (JStr (description @ ''\<newline>\<newline>'' @ premium_marker)))))
             (take n progs) (fst (fst (category_content E url False w)))
           \<and> (snd (fst (category_content E url False w)) = None \<longrightarrow> n = length progs)
           \<and> (\<forall>e. snd (fst (category_content E url False w)) = Some e \<longrightarrow>
                  stops_at E cat_data False progs n e))"
    (is "?hidden \<and> ?shown")
proof (rule conjI)
  from assms show ?hidden
  proof (cases rule: category_content_loop [where hide_payed = True])
    case failed
    then have "0 \<le> length progs \<and>
           list_all2 (\<lambda>prog item.
               \<exists>category. programme_entry E category True prog = Inr (Some item))
             (filter is_free (take 0 progs)) (fst (fst (category_content E url True w)))
           \<and> (\<forall>prog\<in>set (take 0 progs).
                  \<exists>category out. programme_entry E category True prog = Inr out)
           \<and> (snd (fst (category_content E url True w)) = None \<longrightarrow> 0 = length progs)
           \<and> (\<forall>e. snd (fst (category_content E url True w)) = Some e \<longrightarrow>
                  stops_at E cat_data True progs 0 e)"
      by (simp add: stops_at_def)
    then show ?thesis by (rule exI [of _ 0])
  next
    case (ran category)
    from yield_all_prefix [of progs "programme_entry E category True"]
    obtain n where le: "n \<le> length progs"
      and ok: "\<forall>x\<in>set (take n progs). \<exists>out. programme_entry E category True x = Inr out"
      and items: "list_all2 (\<lambda>x y. programme_entry E category True x = Inr (Some y))
          (filter (\<lambda>x. programme_entry E category True x \<noteq> Inr None) (take n progs))
          (fst (yield_all (programme_entry E category True) progs))"
      and fin: "snd (yield_all (programme_entry E category True) progs) = None
          \<longrightarrow> n = length progs"
      and stop: "\<forall>e. snd (yield_all (programme_entry E category True) progs) = Some e \<longrightarrow>
          n < length progs \<and> programme_entry E category True (progs ! n) = Inl e"
      by (elim exE conjE)
    have "filter (\<lambda>x. programme_entry E category True x \<noteq> Inr None) (take n progs) =
        filter is_free (take n progs)"
    proof (rule filter_cong [OF refl])
      fix x
      assume "x \<in> set (take n progs)"
      with ok obtain out where "programme_entry E category True x = Inr out" by blast
      with programme_entry_hidden [OF this]
      show "(programme_entry E category True x \<noteq> Inr None) = is_free x" by simp
    qed
    with items have "list_all2 (\<lambda>x y. programme_entry E category True x = Inr (Some y))
        (filter is_free (take n progs)) (fst (fst (category_content E url True w)))"
      by (simp add: ran)
    then have "list_all2 (\<lambda>prog item.
               \<exists>category. programme_entry E category True prog = Inr (Some item))
             (filter is_free (take n progs)) (fst (fst (category_content E url True w)))"
      by (rule list_all2_mono) (rule exI)
    moreover from ok have "\<forall>prog\<in>set (take n progs).
        \<exists>category out. programme_entry E category True prog = Inr out"
      by blast
    ultimately have "n \<le> length progs \<and>
           list_all2 (\<lambda>prog item.
               \<exists>category. programme_entry E category True prog = Inr (Some item))
             (filter is_free (take n progs)) (fst (fst (category_content E url True w)))
           \<and> (\<forall>prog\<in>set (take n progs).
                  \<exists>category out. programme_entry E category True prog = Inr out)
           \<and> (snd (fst (category_content E url True w)) = None \<longrightarrow> n = length progs)
           \<and> (\<forall>e. snd (fst (category_content E url True w)) = Some e \<longrightarrow>
                  stops_at E cat_data True progs n e)"
      using le fin stop by (simp add: ran stops_at_def)
    then show ?thesis by (rule exI [of _ n])
  qed
next
  from assms show ?shown
  proof (cases rule: category_content_loop [where hide_payed = False])
    case failed
    then have "0 \<le> length progs \<and>
           list_all2 (\<lambda>prog item.
               (\<exists>category. programme_entry E category False prog = Inr (Some item))
               \<and> (\<not> is_free prog \<longrightarrow>
                    (\<exists>description. py_getitem prog ''description'' = Inr (JStr description)
                       \<and> item_plot item =
                           Inr (JStr (description @ ''\<newline>\<newline>'' @ premium_marker)))))
             (take 0 progs) (fst (fst (category_content E url False w)))
           \<and> (snd (fst (category_content E url False w)) = None \<longrightarrow> 0 = length progs)
           \<and> (\<forall>e. snd (fst (category_content E url False w)) = Some e \<longrightarrow>
                  stops_at E cat_data False progs 0 e)"
      by (simp add: stops_at_def)
    then show ?thesis by (rule exI [of _ 0])
  next
    case (ran category)
    from yield_all_prefix [of progs "programme_entry E category False"]
    obtain n where le: "n \<le> length progs"
      and ok: "\<forall>x\<in>set (take n progs). \<exists>out. programme_entry E category False x = Inr out"
      and items: "list_all2 (\<lambda>x y. programme_entry E category False x = Inr (Some y))
          (filter (\<lambda>x. programme_entry E category False x \<noteq> Inr None) (take n progs))
          (fst (yield_all (programme_entry E category False) progs))"
      and fin: "snd (yield_all (programme_entry E category False) progs) = None
          \<longrightarrow> n = length progs"
      and stop: "\<forall>e. snd (yield_all (programme_entry E category False) progs) = Some e \<longrightarrow>
          n < length progs \<and> programme_entry E category False (progs ! n) = Inl e"
      by (elim exE conjE)
    have "filter (\<lambda>x. programme_entry E category False x \<noteq> Inr None) (take n progs) =
        take n progs"
      unfolding filter_id_conv
    proof
      fix x
      assume "x \<in> set (take n progs)"
      with ok obtain out where out: "programme_entry E category False x = Inr out" by blast
      with programme_entry_shown [OF this]
      show "programme_entry E category False x \<noteq> Inr None" by auto
    qed
    with items have "list_all2 (\<lambda>x y. programme_entry E category False x = Inr (Some y))
        (take n progs) (fst (fst (category_content E url False w)))"
      by (simp add: ran)
    then have "list_all2 (\<lambda>prog item.
               (\<exists>category. programme_entry E category False prog = Inr (Some item))
               \<and> (\<not> is_free prog \<longrightarrow>
                    (\<exists>description. py_getitem prog ''description'' = Inr (JStr description)
                       \<and> item_plot item =
                           Inr (JStr (description @ ''\<newline>\<newline>'' @ premium_marker)))))
             (take n progs) (fst (fst (category_content E url False w)))"
    proof (rule list_all2_mono)
      fix prog item
      assume built: "programme_entry E category False prog = Inr (Some item)"
      from programme_entry_premium_plot [OF built] built
      show "(\<exists>category. programme_entry E category False prog = Inr (Some item))
               \<and> (\<not> is_free prog \<longrightarrow>
                    (\<exists>description. py_getitem prog ''description'' = Inr (JStr description)
                       \<and> item_plot item =
                           Inr (JStr (description @ ''\<newline>\<newline>'' @ premium_marker))))"
        by blast
    qed
    with le fin stop have "n \<le> length progs \<and>
           list_all2 (\<lambda>prog item.
               (\<exists>category. programme_entry E category False prog = Inr (Some item))
               \<and> (\<not> is_free prog \<longrightarrow>
                    (\<exists>description. py_getitem prog ''description'' = Inr (JStr description)
                       \<and> item_plot item =
                           Inr (JStr (description @ ''\<newline>\<newline>'' @ premium_marker)))))
             (take n progs) (fst (fst (category_content E url False w)))
           \<and> (snd (fst (category_content E url False w)) = None \<longrightarrow> n = length progs)
           \<and> (\<forall>e. snd (fst (category_content E url False w)) = Some e \<longrightarrow>
                  stops_at E cat_data False progs n e)"
      by (simp add: ran stops_at_def)
    then show ?thesis by (rule exI [of _ n])
  qed
qed

theorem category_content_tiers_witness:
  "length (fst (fst (category_content (page_env drama_page) ''/watch/categories/drama-soaps''
      True initial_world))) = 1
   \<and> list_all2 (\<lambda>prog item. \<exists>category.
          programme_entry (page_env drama_page) category True prog = Inr (Some item))
        [free_programme]
        (fst (fst (category_content (page_env drama_page) ''/watch/categories/drama-soaps''
          True initial_world)))
   \<and> length (fst (fst (category_content (page_env drama_page) ''/watch/categories/drama-soaps''
      False initial_world))) = 2
   \<and> item_plot (last (fst (fst (category_content (page_env drama_page)
        ''/watch/categories/drama-soaps'' False initial_world)))) =
       Inr (JStr ''Period drama\<newline>\<newline>[COLOR yellow]X premium[/COLOR]'')
   \<and> stops_at (page_env broken_page) broken_page False
        [free_programme, untitled_programme, premium_programme] 1 (KeyError ''title'')"
proof -
  define B where "B = page_env broken_page"
  define path where "path = ''/watch/categories/factual''"
  have broken: "fst (get_page_data B path initial_world) = Inr broken_page"
    by (simp add: get_page_data_def B_def page_env_def plain_env_def)
  have three: "py_get broken_page ''programmes'' JNull =
      Inr (JList [free_programme, untitled_programme, premium_programme])"
    by (simp add: broken_page_def)
  have iter: "py_iter (JList [free_programme, untitled_programme, premium_programme]) =
      Inr [free_programme, untitled_programme, premium_programme]"
    by simp
  have raised: "snd (fst (category_content B path False initial_world)) =
      Some (KeyError ''title'')"
    unfolding B_def path_def by code_simp
  have one: "length (fst (fst (category_content B path False initial_world))) = 1"
    unfolding B_def path_def by code_simp
  from category_content_tiers [OF broken three iter, THEN conjunct2]
  obtain n where "n \<le> length [free_programme, untitled_programme, premium_programme]"
    and "length (take n [free_programme, untitled_programme, premium_programme]) =
      length (fst (fst (category_content B path False initial_world)))"
    and "\<forall>e. snd (fst (category_content B path False initial_world)) = Some e \<longrightarrow>
      stops_at B broken_page False [free_programme, untitled_programme, premium_programme] n e"
    by (elim exE conjE) (drule list_all2_lengthD)
  with one raised have stopped: "stops_at B broken_page False
      [free_programme, untitled_programme, premium_programme] 1 (KeyError ''title'')"
    by simp
  define E where "E = page_env drama_page"
  define url where "url = ''/watch/categories/drama-soaps''"
  have page: "fst (get_page_data E url initial_world) = Inr drama_page"
    by (simp add: get_page_data_def E_def page_env_def plain_env_def)
  have list: "py_get drama_page ''programmes'' JNull =
      Inr (JList [free_programme, premium_programme])"
    by (simp add: drama_page_def)
  have progs: "py_iter (JList [free_programme, premium_programme]) =
      Inr [free_programme, premium_programme]"
    by simp
  have fin: "snd (fst (category_content E url True initial_world)) = None"
    "snd (fst (category_content E url False initial_world)) = None"
    unfolding E_def url_def by code_simp+
  have tiers: "is_free free_programme" "\<not> is_free premium_programme"
    by code_simp+
  have description: "py_getitem premium_programme ''description'' = Inr (JStr ''Period drama'')"
    by (simp add: premium_programme_def)
  note category_content_tiers [OF page list progs]
  with fin tiers
  have hidden: "list_all2 (\<lambda>prog item. \<exists>category.
          programme_entry E category True prog = Inr (Some item))
        [free_programme] (fst (fst (category_content E url True initial_world)))"
    and shown: "list_all2 (\<lambda>prog item.
               (\<exists>category. programme_entry E category False prog = Inr (Some item))
               \<and> (\<not> is_free prog \<longrightarrow>
                    (\<exists>description. py_getitem prog ''description'' = Inr (JStr description)
                       \<and> item_plot item =
                           Inr (JStr (description @ ''\<newline>\<newline>'' @ premium_marker)))))
             [free_programme, premium_programme]
             (fst (fst (category_content E url False initial_world)))"
    by auto
  from shown obtain item1 item2
    where items: "fst (fst (category_content E url False initial_world)) = [item1, item2]"
      and "\<exists>description. py_getitem premium_programme ''description'' = Inr (JStr description)
                       \<and> item_plot item2 =
                           Inr (JStr (description @ ''\<newline>\<newline>'' @ premium_marker))"
    using tiers(2) by (auto simp: list_all2_Cons1)
  with description have "item_plot item2 =
      Inr (JStr (''Period drama'' @ ''\<newline>\<newline>'' @ premium_marker))"
    by auto
  with items hidden stopped show ?thesis
    unfolding E_def url_def B_def by (auto simp: list_all2_Cons1 premium_marker_def)
qed

subsection \<open>Loops and their bounds\<close>

lemma map_all_length: "map_all f xs = Inr ys \<Longrightarrow> length ys = length xs"
  by (induction xs arbitrary: ys) (auto simp: bind_eq_Inr)

lemma yield_all_length: "length (fst (yield_all f xs)) \<le> length xs"
  by (induction xs) (auto split: sum.splits option.splits)

lemma search_loop_length:
  "length (fst (fst (search_loop E search_term results w))) \<le> length results"
proof (induction results arbitrary: w)
  case Nil
  show ?case by simp
next
  case (Cons result rest)
  have "length (fst (fst (search_loop E search_term rest v))) \<le> Suc (length rest)" for v
    using Cons.IH [of v] by simp
  with Cons.IH [of w] show ?case
    by (simp split: sum.splits)
qed

lemma search_loop_log_length:
  "length (log_records (snd (search_loop E search_term results w))) \<le>
   length (log_records w) + length results"
proof (induction results arbitrary: w)
  case Nil
  show ?case by simp
next
  case (Cons result rest)
  have "length (log_records (snd (search_loop E search_term rest (logged l m a w)))) \<le>
      Suc (length (log_records w) + length rest)" for l m a
    using Cons.IH [of "logged l m a w"] by (simp add: logged_def)
  moreover have "length (log_records (snd (search_loop E search_term rest w))) \<le>
      Suc (length (log_records w) + length rest)"
    using Cons.IH [of w] by simp
  ultimately show ?case
    by (simp split: sum.splits)
qed

lemma live_channels_of_length:
  "loop_length (live_channels_of E fanart_url main_schedule channels) \<le>
   loop_length (Inr channels)"
proof (cases "live_channels_of E fanart_url main_schedule channels")
  case (Inl e)
  then show ?thesis by (simp add: loop_length_def)
next
  case (Inr r)
  then obtain items items' where items: "py_iter channels = Inr items"
    and loop: "live_channel_loop E fanart_url main_schedule items = Inr items'"
    and r: "r = (case channels of JList _ \<Rightarrow> JList items' | _ \<Rightarrow> channels)"
    by (auto simp: live_channels_of_def bind_eq_Inr)
  from live_channel_loop_pointwise [OF loop] have "length items = length items'"
    by (rule list_all2_lengthD)
  with Inr items r show ?thesis
    by (cases channels) (simp_all add: loop_length_def)
qed

lemma get_live_channels_length:
  "loop_length (fst (get_live_channels E w)) \<le>
   loop_length (bind (get_json E live_channels_url (live_channels_params w))
     (\<lambda>live_data. py_getitem live_data ''channels''))"
proof (cases "get_json E live_channels_url (live_channels_params w)")
  case (Inl e)
  then show ?thesis by (simp add: get_live_channels_def Let_def loop_length_def)
next
  case live: (Inr live_data)
  show ?thesis
  proof (cases "bind (py_getitem live_data ''images'') (\<lambda>images. py_getitem images ''backdrop'')")
    case (Inl e)
    with live show ?thesis by (simp add: get_live_channels_def Let_def loop_length_def)
  next
    case fanart: (Inr fanart_url)
    show ?thesis
    proof (cases "get_live_schedule E")
      case (Inl e)
      with live fanart show ?thesis
        by (simp add: get_live_channels_def Let_def loop_length_def)
    next
      case schedule: (Inr main_schedule)
      show ?thesis
      proof (cases "py_getitem live_data ''channels''")
        case (Inl e)
        with live fanart schedule show ?thesis
          by (simp add: get_live_channels_def Let_def loop_length_def)
      next
        case (Inr channels)
        with live fanart schedule live_channels_of_length [of E fanart_url main_schedule channels]
        show ?thesis
          by (simp add: get_live_channels_def Let_def)
      qed
    qed
  qed
qed

lemma series_list_of_length:
  "loop_length (series_list_of E url brand_data) \<le>
   loop_length (py_getitem brand_data ''series'')"
proof (cases "series_list_of E url brand_data")
  case (Inl e)
  then show ?thesis by (simp add: loop_length_def)
next
  case (Inr r)
  then obtain series_data where series: "py_getitem brand_data ''series'' = Inr series_data"
    and r: "(if \<not> py_truthy series_data then r = JList []
       else \<exists>items l. py_iter series_data = Inr items \<and> length l = length items \<and> r = JList l)"
    by (auto simp: series_list_of_def bind_eq_Inr dest: map_all_length split: if_splits)
  with Inr show ?thesis
    by (auto simp: loop_length_def split: if_splits sum.splits)
qed

lemma episodes_length:
  "loop_length (fst (episodes E url w)) \<le>
   loop_length (bind (fst (get_page_data E url w)) (\<lambda>page.
     bind (py_getitem page ''title'') (\<lambda>title.
     bind (py_getitem title ''brand'') (\<lambda>brand_data.
       py_getitem brand_data ''series''))))"
proof (cases "bind (fst (get_page_data E url w)) (\<lambda>page.
     bind (py_getitem page ''title'') (\<lambda>title. py_getitem title ''brand''))")
  case (Inl e)
  then have "fst (episodes E url w) = Inl e"
    by (auto simp: episodes_def Let_def bind_eq_Inl)
  then show ?thesis by (simp add: loop_length_def)
next
  case (Inr brand_data)
  then have "fst (episodes E url w) = series_list_of E url brand_data"
    and "bind (fst (get_page_data E url w)) (\<lambda>page.
     bind (py_getitem page ''title'') (\<lambda>title.
     bind (py_getitem title ''brand'') (\<lambda>brand_data.
       py_getitem brand_data ''series''))) = py_getitem brand_data ''series''"
    by (auto simp: episodes_def Let_def bind_eq_Inr)
  with series_list_of_length [of E url brand_data] show ?thesis by simp
qed

lemma categories_length:
  "length (fst (fst (categories E w))) \<le>
   loop_length (bind (fst (get_page_data E ''https://www.itv.com/watch/categories'' w)) (\<lambda>data.
     bind (py_getitem data ''subnav'') (\<lambda>subnav.
       py_getitem subnav ''items'')))"
proof (cases "bind (fst (get_page_data E ''https://www.itv.com/watch/categories'' w)) (\<lambda>data.
     bind (py_getitem data ''subnav'') (\<lambda>subnav. py_getitem subnav ''items''))")
  case (Inl e)
  then have "bind (fst (get_page_data E ''https://www.itv.com/watch/categories'' w)) (\<lambda>data.
          bind (py_getitem data ''subnav'') (\<lambda>subnav.
          bind (py_getitem subnav ''items'') (\<lambda>cat_list.
            py_iter cat_list))) = Inl e"
    by (auto simp: bind_eq_Inl)
  then show ?thesis by (simp add: categories_def Let_def)
next
  case (Inr cat_list)
  then have "bind (fst (get_page_data E ''https://www.itv.com/watch/categories'' w)) (\<lambda>data.
          bind (py_getitem data ''subnav'') (\<lambda>subnav.
          bind (py_getitem subnav ''items'') (\<lambda>cat_list.
            py_iter cat_list))) = py_iter cat_list"
    by (auto simp: bind_eq_Inr)
  with Inr show ?thesis
    by (cases "py_iter cat_list") (simp_all add: categories_def Let_def loop_length_def yield_all_length)
qed

lemma category_content_length:
  "length (fst (fst (category_content E url hide_payed w))) \<le>
   loop_length (bind (fst (get_page_data E url w)) (\<lambda>cat_data.
     py_get cat_data ''programmes'' JNull))"
proof (cases "bind (fst (get_page_data E url w)) (\<lambda>cat_data.
          bind (py_getitem cat_data ''category'') (\<lambda>cat.
          bind (py_getitem cat ''pathSegment'') (\<lambda>category.
          bind (py_get cat_data ''programmes'' JNull) (\<lambda>progr_list.
          bind (py_iter progr_list) (\<lambda>progs.
            Inr (category, progs))))))")
  case (Inl e)
  then show ?thesis by (simp add: category_content_def Let_def)
next
  case (Inr cp)
  then obtain cat_data progr_list where "fst (get_page_data E url w) = Inr cat_data"
    and "py_get cat_data ''programmes'' JNull = Inr progr_list"
    and "py_iter progr_list = Inr (snd cp)"
    by (auto simp: bind_eq_Inr)
  with Inr show ?thesis
    by (simp add: category_content_def Let_def loop_length_def yield_all_length)
qed

lemma search_length:
  "length (fst (fst (search E search_term w))) \<le>
     loop_length (bind (get_json E search_url (query_params search_term)) (\<lambda>data.
       py_get data ''results'' JNull))
   \<and> length (log_records (snd (search E search_term w))) \<le>
     length (log_records w)
     + loop_length (bind (get_json E search_url (query_params search_term)) (\<lambda>data.
         py_get data ''results'' JNull))"
proof (cases "get_json E search_url (query_params search_term)")
  case (Inl e)
  then show ?thesis by (simp add: search_def Let_def fetched_def)
next
  case data: (Inr data)
  show ?thesis
  proof (cases "data = JNull")
    case True
    with data show ?thesis by (simp add: search_def Let_def fetched_def)
  next
    case False
    show ?thesis
    proof (cases "bind (py_get data ''results'' JNull) py_iter")
      case (Inl e)
      with data False show ?thesis by (simp add: search_def Let_def fetched_def)
    next
      case (Inr results)
      with data False
        search_loop_length [of E search_term results
          "fetched (Get_json search_url (query_params search_term)) w"]
        search_loop_log_length [of E search_term results
          "fetched (Get_json search_url (query_params search_term)) w"]
      show ?thesis
        by (simp add: search_def Let_def fetched_def loop_length_def)
    qed
  qed
qed

lemma requests_sent:
  "length (requests (snd (get_live_channels E w))) \<le> length (requests w) + 2
   \<and> length (requests (snd (episodes E url w))) = length (requests w) + 1
   \<and> length (requests (snd (categories E w))) = length (requests w) + 1
   \<and> length (requests (snd (category_content E url hide_payed w))) = length (requests w) + 1
   \<and> length (requests (snd (search E search_term w))) = length (requests w) + 1"
  using search_loop_frame
    [of E search_term _ "fetched (Get_json search_url (query_params search_term)) w"]
  by (simp add: get_page_data_def get_live_channels_def episodes_def categories_def
      category_content_def search_def fetched_def changed_in_place_def Let_def split: sum.splits)

text \<open>
  Claim C6. Every function of the model is total: each loop of the module is a
  \<open>for\<close> loop over a list of the fetched data, a recursion over that list here, and
  the definitions above are accepted with their termination proofs. So every operation
  finishes on every input, with a result or with an exception. What it produces is
  bounded by what it was given: \<open>get_live_channels\<close> and \<open>episodes\<close> return at most as
  many entries, and \<open>categories\<close>, \<open>category_content\<close> and \<open>search\<close> yield at most as
  many items, as the list they loop over has elements; \<open>search\<close> logs at most one
  warning per result; and an operation sends one request, \<open>get_live_channels\<close> at most
  two.
\<close>

theorem operations_finish_within_bounds:
  "loop_length (fst (get_live_channels E w)) \<le>
     loop_length (bind (get_json E live_channels_url (live_channels_params w))
       (\<lambda>live_data. py_getitem live_data ''channels''))
   \<and> loop_length (fst (episodes E url w)) \<le>
     loop_length (bind (fst (get_page_data E url w)) (\<lambda>page.
       bind (py_getitem page ''title'') (\<lambda>title.
       bind (py_getitem title ''brand'') (\<lambda>brand_data.
         py_getitem brand_data ''series''))))
   \<and> length (fst (fst (categories E w))) \<le>
     loop_length (bind (fst (get_page_data E ''https://www.itv.com/watch/categories'' w))
       (\<lambda>data. bind (py_getitem data ''subnav'') (\<lambda>subnav. py_getitem subnav ''items'')))
   \<and> length (fst (fst (category_content E url hide_payed w))) \<le>
     loop_length (bind (fst (get_page_data E url w)) (\<lambda>cat_data.
       py_get cat_data ''programmes'' JNull))
   \<and> length (fst (fst (search E search_term w))) \<le>
     loop_length (bind (get_json E search_url (query_params search_term)) (\<lambda>data.
       py_get data ''results'' JNull))
   \<and> length (log_records (snd (search E search_term w))) \<le>
     length (log_records w)
     + loop_length (bind (get_json E search_url (query_params search_term)) (\<lambda>data.
         py_get data ''results'' JNull))
   \<and> length (requests (snd (get_live_channels E w))) \<le> length (requests w) + 2
   \<and> length (requests (snd (episodes E url w))) = length (requests w) + 1
   \<and> length (requests (snd (categories E w))) = length (requests w) + 1
   \<and> length (requests (snd (category_content E url hide_payed w))) = length (requests w) + 1
   \<and> length (requests (snd (search E search_term w))) = length (requests w) + 1"
  using get_live_channels_length [of E w] episodes_length [of E url w] categories_length [of E w]
    category_content_length [of E url hide_payed w] search_length [of E search_term w]
    requests_sent [of E w url hide_payed search_term]
  by (intro conjI) (elim conjE; assumption)+

theorem operations_finish_within_bounds_witness:
  "loop_length (fst (get_live_channels
       (live_env [fast_channel, simulcast_channel ''ITV''] (Inr itv_schedule)) initial_world)) \<le> 2
   \<and> length (requests (snd (get_live_channels
       (live_env [fast_channel, simulcast_channel ''ITV''] (Inr itv_schedule)) initial_world))) \<le> 2
   \<and> length (fst (fst (search
       (json_env (search_response [programme_result, video_result, special_result]))
       ''chase'' initial_world))) \<le> 3
   \<and> length (log_records (snd (search
       (json_env (search_response [programme_result, video_result, special_result]))
       ''chase'' initial_world))) \<le> 3
   \<and> length (fst (fst (category_content (page_env drama_page) ''/watch/categories/drama-soaps''
       True initial_world))) \<le> 2"
proof -
  have channels: "loop_length (bind
      (get_json (live_env [fast_channel, simulcast_channel ''ITV''] (Inr itv_schedule))
         live_channels_url (live_channels_params initial_world))
      (\<lambda>live_data. py_getitem live_data ''channels'')) = 2"
    by code_simp
  have results: "loop_length (bind
      (get_json (json_env (search_response [programme_result, video_result, special_result]))
         search_url (query_params ''chase''))
      (\<lambda>data. py_get data ''results'' JNull)) = 3"
    by code_simp
  have programmes: "loop_length (bind
      (fst (get_page_data (page_env drama_page) ''/watch/categories/drama-soaps'' initial_world))
      (\<lambda>cat_data. py_get cat_data ''programmes'' JNull)) = 2"
    by code_simp
  have no_history: "requests initial_world = [] \<and> log_records initial_world = []"
    by (simp add: initial_world_def)
  note live = operations_finish_within_bounds
      [where E = "live_env [fast_channel, simulcast_channel ''ITV''] (Inr itv_schedule)"
        and w = initial_world and url = "[]" and search_term = "[]" and hide_payed = True]
  note found = operations_finish_within_bounds
      [where E = "json_env (search_response [programme_result, video_result, special_result])"
        and search_term = "''chase''" and w = initial_world and url = "[]"
        and hide_payed = True]
  note listed = operations_finish_within_bounds
      [where E = "page_env drama_page" and url = "''/watch/categories/drama-soaps''"
        and hide_payed = True and w = initial_world and search_term = "[]"]
  from live have "loop_length (fst (get_live_channels
       (live_env [fast_channel, simulcast_channel ''ITV''] (Inr itv_schedule)) initial_world)) \<le>
     loop_length (bind
      (get_json (live_env [fast_channel, simulcast_channel ''ITV''] (Inr itv_schedule))
         live_channels_url (live_channels_params initial_world))
      (\<lambda>live_data. py_getitem live_data ''channels''))"
    by simp
  with channels have 1: "loop_length (fst (get_live_channels
       (live_env [fast_channel, simulcast_channel ''ITV''] (Inr itv_schedule)) initial_world)) \<le> 2"
    by simp
  from live have "length (requests (snd (get_live_channels
       (live_env [fast_channel, simulcast_channel ''ITV''] (Inr itv_schedule)) initial_world))) \<le>
     length (requests initial_world) + 2"
    by simp
  with no_history have 2: "length (requests (snd (get_live_channels
       (live_env [fast_channel, simulcast_channel ''ITV''] (Inr itv_schedule)) initial_world))) \<le> 2"
    by simp
  from found have "length (fst (fst (search
       (json_env (search_response [programme_result, video_result, special_result]))
       ''chase'' initial_world))) \<le>
     loop_length (bind
      (get_json (json_env (search_response [programme_result, video_result, special_result]))
         search_url (query_params ''chase''))
      (\<lambda>data. py_get data ''results'' JNull))"
    by simp
  with results have 3: "length (fst (fst (search
       (json_env (search_response [programme_result, video_result, special_result]))
       ''chase'' initial_world))) \<le> 3"
    by simp
  from found have "length (log_records (snd (search
       (json_env (search_response [programme_result, video_result, special_result]))
       ''chase'' initial_world))) \<le>
     length (log_records initial_world) +
     loop_length (bind
      (get_json (json_env (search_response [programme_result, video_result, special_result]))
         search_url (query_params ''chase''))
      (\<lambda>data. py_get data ''results'' JNull))"
    by simp
  with results no_history have 4: "length (log_records (snd (search
       (json_env (search_response [programme_result, video_result, special_result]))
       ''chase'' initial_world))) \<le> 3"
    by simp
  from listed have "length (fst (fst (category_content (page_env drama_page)
       ''/watch/categories/drama-soaps'' True initial_world))) \<le>
     loop_length (bind
      (fst (get_page_data (page_env drama_page) ''/watch/categories/drama-soaps'' initial_world))
      (\<lambda>cat_data. py_get cat_data ''programmes'' JNull))"
    by simp
  with programmes have 5: "length (fst (fst (category_content (page_env drama_page)
       ''/watch/categories/drama-soaps'' True initial_world))) \<le> 2"
    by simp
  from 1 2 3 4 5 show ?thesis by (intro conjI)
qed

end
